theory Spec2Isabelle
  imports Main "HOL-Library.AList"
begin

section \<open>JavaScript values as the updater script sees them\<close>

text \<open>
  The script \<^verbatim>\<open>scripts/update-readme.js\<close> works on dynamically typed values: what
  \<^verbatim>\<open>JSON.parse\<close> and \<^verbatim>\<open>yaml.load\<close> return. A string is its list of UTF-16 code
  units, which is what \<^verbatim>\<open>length\<close>, \<^verbatim>\<open>padEnd\<close>, \<^verbatim>\<open>slice\<close> and \<^verbatim>\<open>repeat\<close> count.
  A number is \<^verbatim>\<open>NaN\<close>, an infinity, or a decimal \<open>m * 10^e\<close>; the rounding of IEEE doubles
  and the sign of zero are not modelled. An object is the list of its own properties in
  property order (keys are distinct in a value that was parsed).
\<close>

type_synonym jstring = "nat list"

definition asc :: "string \<Rightarrow> jstring" where
  "asc s = map of_char s"

datatype jsnum = NaN | Infinity bool | Dec int int

datatype jsval =
    JUndef
  | JNull
  | JBool bool
  | JNum jsnum
  | JStr jstring
  | JArr "jsval list"
  | JObj "(jstring \<times> jsval) list"

datatype js_error = TypeError | RangeError | TransportError jstring

definition bindE :: "js_error + 'a \<Rightarrow> ('a \<Rightarrow> js_error + 'b) \<Rightarrow> js_error + 'b" where
  "bindE m f = (case m of Inl e \<Rightarrow> Inl e | Inr x \<Rightarrow> f x)"

fun mapE :: "('a \<Rightarrow> js_error + 'b) \<Rightarrow> 'a list \<Rightarrow> js_error + 'b list" where
  "mapE f [] = Inr []"
| "mapE f (x # xs) = bindE (f x) (\<lambda>y. bindE (mapE f xs) (\<lambda>ys. Inr (y # ys)))"

definition jint :: "int \<Rightarrow> jsval" where
  "jint n = JNum (Dec n 0)"

subsection \<open>Truthiness, property access, object spread\<close>

fun truthy :: "jsval \<Rightarrow> bool" where
  "truthy JUndef = False"
| "truthy JNull = False"
| "truthy (JBool b) = b"
| "truthy (JNum NaN) = False"
| "truthy (JNum (Infinity neg)) = True"
| "truthy (JNum (Dec m e)) = (m \<noteq> 0)"
| "truthy (JStr s) = (s \<noteq> [])"
| "truthy (JArr xs) = True"
| "truthy (JObj kvs) = True"

text \<open>\<^verbatim>\<open>a || b\<close>\<close>

definition js_or :: "jsval \<Rightarrow> jsval \<Rightarrow> jsval" where
  "js_or a b = (if truthy a then a else b)"

text \<open>
  \<^verbatim>\<open>v.k\<close> for the property names this script reads; none of them is inherited from a
  prototype, so a primitive or an array has none of them. Reading a property of
  \<^verbatim>\<open>undefined\<close> or \<^verbatim>\<open>null\<close> throws.
\<close>

fun get_prop :: "jsval \<Rightarrow> jstring \<Rightarrow> js_error + jsval" where
  "get_prop JUndef k = Inl TypeError"
| "get_prop JNull k = Inl TypeError"
| "get_prop (JObj kvs) k = Inr (case map_of kvs k of None \<Rightarrow> JUndef | Some v \<Rightarrow> v)"
| "get_prop v k = Inr JUndef"

text \<open>\<^verbatim>\<open>v?.k\<close>\<close>

definition get_opt :: "jsval \<Rightarrow> jstring \<Rightarrow> jsval" where
  "get_opt v k = (case get_prop v k of Inl e \<Rightarrow> JUndef | Inr x \<Rightarrow> x)"

text \<open>
  \<^verbatim>\<open>v.k = x\<close> outside strict mode, for a \<open>v\<close> that is not \<^verbatim>\<open>undefined\<close> or \<^verbatim>\<open>null\<close>: an
  object gets the property (in place if it has it, appended otherwise), a primitive is left
  as it is. On an array JavaScript stores a named property that neither \<^verbatim>\<open>yaml.dump\<close>
  nor the renderer reads; the model leaves the array as it is.
\<close>

fun set_prop :: "jsval \<Rightarrow> jstring \<Rightarrow> jsval \<Rightarrow> jsval" where
  "set_prop (JObj kvs) k x = JObj (AList.update k x kvs)"
| "set_prop v k x = v"

subsection \<open>Numbers and strings\<close>

fun nat_digits :: "nat \<Rightarrow> jstring" where
  "nat_digits n = (if n < 10 then [48 + n] else nat_digits (n div 10) @ [48 + n mod 10])"

declare nat_digits.simps [simp del]

definition strip_zeros :: "jstring \<Rightarrow> jstring" where
  "strip_zeros ds = rev (dropWhile (\<lambda>c. c = 48) (rev ds))"

text \<open>
  \<^verbatim>\<open>Number::toString\<close> of ECMAScript: with \<open>k\<close> significant digits and the decimal point
  after the \<open>n\<close>-th, plain digits when \<open>k \<le> n \<le> 21\<close>, a point inside when \<open>0 < n \<le> 21\<close>,
  leading \<^verbatim>\<open>0.\<close> when \<open>-6 < n \<le> 0\<close>, exponent notation otherwise.
\<close>

definition num_to_string :: "jsnum \<Rightarrow> jstring" where
  "num_to_string x =
     (case x of
        NaN \<Rightarrow> asc ''NaN''
      | Infinity neg \<Rightarrow> (if neg then asc ''-Infinity'' else asc ''Infinity'')
      | Dec m e \<Rightarrow>
          if m = 0 then asc ''0''
          else
            (let whole = nat_digits (nat \<bar>m\<bar>);
                 ds = strip_zeros whole;
                 k = int (length ds);
                 n = int (length whole) + e;
                 sign = (if m < 0 then asc ''-'' else [])
             in sign @
                (if k \<le> n \<and> n \<le> 21 then ds @ replicate (nat (n - k)) 48
                 else if 0 < n \<and> n \<le> 21 then take (nat n) ds @ asc ''.'' @ drop (nat n) ds
                 else if - 6 < n \<and> n \<le> 0 then asc ''0.'' @ replicate (nat (- n)) 48 @ ds
                 else
                   (let ex = (if n - 1 < 0 then asc ''-'' else asc ''+'') @ nat_digits (nat \<bar>n - 1\<bar>)
                    in if k = 1 then ds @ asc ''e'' @ ex
                       else take 1 ds @ asc ''.'' @ drop 1 ds @ asc ''e'' @ ex))))"

text \<open>\<open>a * 10^e \<ge> 10^21\<close>\<close>

definition ge_1e21 :: "nat \<Rightarrow> int \<Rightarrow> bool" where
  "ge_1e21 a e = (if 0 \<le> e then 10 ^ 21 \<le> a * 10 ^ nat e else 10 ^ (21 + nat (- e)) \<le> a)"

text \<open>The integer nearest to \<open>a * 10^e * 100\<close>, the larger one of two.\<close>

definition round_cents :: "nat \<Rightarrow> int \<Rightarrow> nat" where
  "round_cents a e =
     (if 0 \<le> e + 2 then a * 10 ^ nat (e + 2)
      else (2 * a + 10 ^ nat (- (e + 2))) div (2 * 10 ^ nat (- (e + 2))))"

text \<open>\<^verbatim>\<open>x.toFixed(2)\<close> on a number \<open>x\<close>.\<close>

definition to_fixed2 :: "jsnum \<Rightarrow> jstring" where
  "to_fixed2 x =
     (case x of
        NaN \<Rightarrow> num_to_string x
      | Infinity neg \<Rightarrow> num_to_string x
      | Dec m e \<Rightarrow>
          (let a = nat \<bar>m\<bar>;
               sign = (if m < 0 then asc ''-'' else [])
           in if ge_1e21 a e then sign @ num_to_string (Dec (int a) e)
              else
                (let ds = nat_digits (round_cents a e);
                     padded = replicate (3 - length ds) 48 @ ds
                 in sign @ take (length padded - 2) padded @ asc ''.''
                      @ drop (length padded - 2) padded)))"

text \<open>
  \<^verbatim>\<open>String(v)\<close> and \<^verbatim>\<open>`${v}`\<close>. A parsed object has \<^verbatim>\<open>Object.prototype.toString\<close>
  unless it has a property \<^verbatim>\<open>toString\<close> of its own, which is data and cannot be called:
  then the conversion throws. \<^verbatim>\<open>xs.join(sep)\<close> turns \<^verbatim>\<open>undefined\<close> and \<^verbatim>\<open>null\<close>
  elements into the empty string.
\<close>

fun to_string :: "jsval \<Rightarrow> js_error + jstring"
  and join_vals :: "jstring \<Rightarrow> jsval list \<Rightarrow> js_error + jstring" where
  "to_string JUndef = Inr (asc ''undefined'')"
| "to_string JNull = Inr (asc ''null'')"
| "to_string (JBool b) = Inr (if b then asc ''true'' else asc ''false'')"
| "to_string (JNum x) = Inr (num_to_string x)"
| "to_string (JStr s) = Inr s"
| "to_string (JArr xs) = join_vals (asc '','') xs"
| "to_string (JObj kvs) =
     (if asc ''toString'' \<in> fst ` set kvs then Inl TypeError
      else Inr (asc ''[object Object]''))"
| "join_vals sep [] = Inr []"
| "join_vals sep (x # xs) =
     bindE (if x = JUndef \<or> x = JNull then Inr [] else to_string x)
       (\<lambda>s. if xs = [] then Inr s
            else bindE (join_vals sep xs) (\<lambda>r. Inr (s @ sep @ r)))"

text \<open>\<^verbatim>\<open>s.padEnd(n)\<close>, \<^verbatim>\<open>s.slice(0, n)\<close>, \<^verbatim>\<open>s.repeat(n)\<close> for \<open>n \<ge> 0\<close>.\<close>

definition padEnd :: "nat \<Rightarrow> jstring \<Rightarrow> jstring" where
  "padEnd n s = s @ replicate (n - length s) 32"

definition slice0 :: "nat \<Rightarrow> jstring \<Rightarrow> jstring" where
  "slice0 n s = take n s"

definition repeat :: "jstring \<Rightarrow> int \<Rightarrow> js_error + jstring" where
  "repeat s n = (if n < 0 then Inl RangeError else Inr (concat (replicate (nat n) s)))"

text \<open>\<^verbatim>\<open>xs.join(sep)\<close> on an array of strings.\<close>

fun join_strs :: "jstring \<Rightarrow> jstring list \<Rightarrow> jstring" where
  "join_strs sep [] = []"
| "join_strs sep [s] = s"
| "join_strs sep (s # t # ss) = s @ sep @ join_strs sep (t # ss)"

text \<open>The own enumerable properties that \<^verbatim>\<open>{...v}\<close> copies.\<close>

fun own_props :: "jsval \<Rightarrow> (jstring \<times> jsval) list" where
  "own_props (JObj kvs) = kvs"
| "own_props (JArr xs) = zip (map nat_digits [0..<length xs]) xs"
| "own_props (JStr s) = zip (map nat_digits [0..<length s]) (map (\<lambda>c. JStr [c]) s)"
| "own_props v = []"

text \<open>\<^verbatim>\<open>{...a, ...b}\<close> continued on an object under construction.\<close>

definition spread :: "(jstring \<times> jsval) list \<Rightarrow> jsval \<Rightarrow> (jstring \<times> jsval) list" where
  "spread acc v = fold (\<lambda>(k, x). AList.update k x) (own_props v) acc"

subsection \<open>\<^verbatim>\<open>parseInt\<close> and \<^verbatim>\<open>parseFloat\<close>\<close>

definition is_ws :: "nat \<Rightarrow> bool" where
  "is_ws c = (c \<in> {9, 10, 11, 12, 13, 32, 160, 5760, 8232, 8233, 8239, 8287, 12288, 65279}
              \<or> (8192 \<le> c \<and> c \<le> 8202))"

definition is_digit :: "nat \<Rightarrow> bool" where
  "is_digit c = (48 \<le> c \<and> c \<le> 57)"

definition is_hex :: "nat \<Rightarrow> bool" where
  "is_hex c = (is_digit c \<or> (97 \<le> c \<and> c \<le> 102) \<or> (65 \<le> c \<and> c \<le> 70))"

definition hex_val :: "nat \<Rightarrow> nat" where
  "hex_val c = (if is_digit c then c - 48 else if 97 \<le> c then c - 87 else c - 55)"

fun radix_val :: "nat \<Rightarrow> nat \<Rightarrow> jstring \<Rightarrow> nat" where
  "radix_val r acc [] = acc"
| "radix_val r acc (c # cs) = radix_val r (acc * r + hex_val c) cs"

text \<open>Sign and rest of a string that may start with \<^verbatim>\<open>+\<close> or \<^verbatim>\<open>-\<close>.\<close>

fun split_sign :: "jstring \<Rightarrow> bool \<times> jstring" where
  "split_sign [] = (False, [])"
| "split_sign (c # cs) = (if c = 45 then (True, cs) else if c = 43 then (False, cs) else (False, c # cs))"

text \<open>
  A number \<open>Dec m e\<close> stands for a double by the shortest decimal that reads back as that
  double, which is what \<^verbatim>\<open>Number::toString\<close> prints. \<open>to_double m e\<close> is the double that
  the decimal \<open>m * 10^e\<close> is read as: the nearest one, the even one of two.

  \<open>nearest_double\<close> gives that double as \<open>q * 2^p\<close> with \<open>q \<le> 2^53\<close> and \<open>p \<ge> -1074\<close>;
  \<open>double_decimal\<close> is its exact decimal expansion, and \<open>shortest_decimal\<close> drops as many
  trailing digits of the expansion as can go while the decimal still reads back as the same
  double (of the two neighbours the nearer one, the even one of two).
\<close>

fun bit_length :: "nat \<Rightarrow> nat" where
  "bit_length n = (if n = 0 then 0 else Suc (bit_length (n div 2)))"

declare bit_length.simps [simp del]

definition as_ratio :: "nat \<Rightarrow> int \<Rightarrow> nat \<times> nat" where
  "as_ratio a e = (if 0 \<le> e then (a * 10 ^ nat e, 1) else (a, 10 ^ nat (- e)))"

text \<open>\<open>num / den \<ge> 2^k\<close>\<close>

definition ratio_ge :: "nat \<Rightarrow> nat \<Rightarrow> int \<Rightarrow> bool" where
  "ratio_ge num den k = (if 0 \<le> k then den * 2 ^ nat k \<le> num else den \<le> num * 2 ^ nat (- k))"

definition round_half_even :: "nat \<Rightarrow> nat \<Rightarrow> nat" where
  "round_half_even n d =
     (let q = n div d; r = n mod d
      in if d < 2 * r \<or> (2 * r = d \<and> odd q) then q + 1 else q)"

definition nearest_double :: "nat \<Rightarrow> int \<Rightarrow> nat \<times> int" where
  "nearest_double a e =
     (let (num, den) = as_ratio a e;
          k = int (bit_length num) - int (bit_length den);
          l = (if ratio_ge num den k then k else k - 1);
          p = max (l - 52) (- 1074)
      in (if 0 \<le> p then round_half_even num (den * 2 ^ nat p)
          else round_half_even (num * 2 ^ nat (- p)) den, p))"

definition double_decimal :: "nat \<times> int \<Rightarrow> nat \<times> int" where
  "double_decimal d = (case d of (q, p) \<Rightarrow>
     if 0 \<le> p then (q * 2 ^ nat p, 0) else (q * 5 ^ nat (- p), p))"

definition same_double :: "nat \<times> int \<Rightarrow> nat \<times> int \<Rightarrow> bool" where
  "same_double x y = (case (double_decimal x, double_decimal y) of
     ((m, e), (n, f)) \<Rightarrow> m * 10 ^ nat (e - min e f) = n * 10 ^ nat (f - min e f))"

fun shortest_drop :: "nat \<Rightarrow> nat \<Rightarrow> int \<Rightarrow> nat \<times> int \<Rightarrow> nat \<times> int" where
  "shortest_drop 0 m e d = (m, e)"
| "shortest_drop (Suc t) m e d =
     (let lo = m div 10 ^ Suc t;
          hi = lo + 1;
          x = e + int (Suc t);
          lo_ok = (0 < lo \<and> same_double (nearest_double lo x) d);
          hi_ok = same_double (nearest_double hi x) d;
          below = m - lo * 10 ^ Suc t;
          above = hi * 10 ^ Suc t - m
      in if lo_ok \<and> (\<not> hi_ok \<or> below < above \<or> (below = above \<and> even lo)) then (lo, x)
         else if hi_ok then (hi, x)
         else shortest_drop t m e d)"

definition shortest_decimal :: "nat \<Rightarrow> int \<Rightarrow> nat \<times> int" where
  "shortest_decimal a e =
     (let d = nearest_double a e; (m, x) = double_decimal d
      in shortest_drop (length (nat_digits m) - 1) m x d)"

text \<open>
  A magnitude of \<open>2^1024 - 2^970\<close> or more is read as an infinity, one of \<open>2^-1075\<close> or less
  as zero. A decimal of at most 15 significant digits that is at least \<open>2^-1022\<close> is the
  shortest decimal of the double it is read as, so it stands for that double as it is.
\<close>

definition double_overflow :: "nat \<Rightarrow> int \<Rightarrow> bool" where
  "double_overflow a e =
     (if 0 \<le> e then 2 ^ 1024 - 2 ^ 970 \<le> a * 10 ^ nat e
      else (2 ^ 1024 - 2 ^ 970) * 10 ^ nat (- e) \<le> a)"

definition double_underflow :: "nat \<Rightarrow> int \<Rightarrow> bool" where
  "double_underflow a e = (e < 0 \<and> a * 2 ^ 1075 \<le> 10 ^ nat (- e))"

definition double_normal :: "nat \<Rightarrow> int \<Rightarrow> bool" where
  "double_normal a e = (0 \<le> e \<or> 10 ^ nat (- e) \<le> a * 2 ^ 1022)"

definition to_double :: "int \<Rightarrow> int \<Rightarrow> jsnum" where
  "to_double m e =
     (if double_overflow (nat \<bar>m\<bar>) e then Infinity (m < 0)
      else if double_underflow (nat \<bar>m\<bar>) e then Dec 0 0
      else if nat \<bar>m\<bar> < 10 ^ 15 \<and> double_normal (nat \<bar>m\<bar>) e then Dec m e
      else (case shortest_decimal (nat \<bar>m\<bar>) e of
              (s, x) \<Rightarrow> Dec (if m < 0 then - int s else int s) x))"

definition parse_int_str :: "jstring \<Rightarrow> jsnum" where
  "parse_int_str s0 =
     (let (neg, u) = split_sign (dropWhile is_ws s0);
          hex = (take 2 u = asc ''0x'' \<or> take 2 u = asc ''0X'');
          z = (if hex then takeWhile is_hex (drop 2 u) else takeWhile is_digit u);
          v = int (radix_val (if hex then 16 else 10) 0 z)
      in if z = [] then NaN else to_double (if neg then - v else v) 0)"

fun exponent_part :: "jstring \<Rightarrow> int" where
  "exponent_part [] = 0"
| "exponent_part (c # cs) =
     (if c = 101 \<or> c = 69 then
        (let (neg, r) = split_sign cs; ds = takeWhile is_digit r; v = int (radix_val 10 0 ds)
         in if ds = [] then 0 else if neg then - v else v)
      else 0)"

text \<open>Fraction digits and rest of a string that may start with a decimal point.\<close>

fun split_fraction :: "jstring \<Rightarrow> jstring \<times> jstring" where
  "split_fraction [] = ([], [])"
| "split_fraction (c # cs) =
     (if c = 46 then (takeWhile is_digit cs, dropWhile is_digit cs) else ([], c # cs))"

definition parse_float_str :: "jstring \<Rightarrow> jsnum" where
  "parse_float_str s0 =
     (let (neg, u) = split_sign (dropWhile is_ws s0)
      in if take 8 u = asc ''Infinity'' then Infinity neg
         else
           (let ip = takeWhile is_digit u;
                (fp, r) = split_fraction (dropWhile is_digit u);
                v = int (radix_val 10 0 (ip @ fp))
            in if ip = [] \<and> fp = [] then NaN
               else to_double (if neg then - v else v) (exponent_part r - int (length fp))))"

definition parseInt :: "jsval \<Rightarrow> js_error + jsval" where
  "parseInt v = bindE (to_string v) (\<lambda>s. Inr (JNum (parse_int_str s)))"

definition parseFloat :: "jsval \<Rightarrow> js_error + jsval" where
  "parseFloat v = bindE (to_string v) (\<lambda>s. Inr (JNum (parse_float_str s)))"

section \<open>The collectors\<close>

text \<open>
  What one HTTPS GET can come to: the request fails (the \<^verbatim>\<open>error\<close> event, with the
  message of its \<^verbatim>\<open>Error\<close>), the body is not JSON, or the body parses to a value.
\<close>

datatype http_outcome = TransportFailure jstring | BadBody | JsonBody jsval

text \<open>\<^verbatim>\<open>fetchAPI\<close>: rejects on the \<^verbatim>\<open>error\<close> event, resolves \<^verbatim>\<open>null\<close> when \<^verbatim>\<open>JSON.parse\<close> throws.\<close>

fun fetchAPI :: "http_outcome \<Rightarrow> js_error + jsval" where
  "fetchAPI (TransportFailure msg) = Inl (TransportError msg)"
| "fetchAPI BadBody = Inr JNull"
| "fetchAPI (JsonBody v) = Inr v"

text \<open>
  The \<^verbatim>\<open>try\<close> block of a collector either returns a value (\<open>Some\<close>) or falls through to
  the statement after the \<^verbatim>\<open>try\<close> (\<open>None\<close>). The \<^verbatim>\<open>console.log\<close> calls are kept where they
  convert a fetched value to a string, since that conversion can throw.
\<close>

definition github_try :: "http_outcome \<Rightarrow> js_error + jsval option" where
  "github_try out =
     bindE (fetchAPI out) (\<lambda>data.
       if truthy data then
         bindE (get_prop data (asc ''followers'')) (\<lambda>followers.
         bindE (to_string followers) (\<lambda>logged.
         bindE (get_prop data (asc ''following'')) (\<lambda>following.
         bindE (get_prop data (asc ''public_repos'')) (\<lambda>public_repos.
           Inr (Some (JObj
             [(asc ''followers'', js_or followers (jint 0)),
              (asc ''following'', js_or following (jint 0)),
              (asc ''public_repos'', js_or public_repos (jint 0)),
              (asc ''total_stars'', js_or public_repos (jint 0))]))))))
       else Inr None)"

text \<open>\<^verbatim>\<open>fetchGitHubStats\<close>: the \<^verbatim>\<open>catch\<close> block logs \<^verbatim>\<open>error.message\<close> and falls through to \<^verbatim>\<open>return null\<close>.\<close>

definition fetchGitHubStats :: "http_outcome \<Rightarrow> js_error + jsval" where
  "fetchGitHubStats out =
     (case github_try out of
        Inr (Some stats) \<Rightarrow> Inr stats
      | Inr None \<Rightarrow> Inr JNull
      | Inl error \<Rightarrow> Inr JNull)"

definition leetcode_try :: "http_outcome \<Rightarrow> js_error + jsval option" where
  "leetcode_try out =
     bindE (fetchAPI out) (\<lambda>data.
       if truthy data \<and> get_opt data (asc ''status'') = JStr (asc ''success'') then
         bindE (get_prop data (asc ''totalSolved'')) (\<lambda>totalSolved.
         bindE (to_string totalSolved) (\<lambda>logged.
         bindE (parseInt totalSolved) (\<lambda>total.
         bindE (get_prop data (asc ''easySolved'')) (\<lambda>easySolved.
         bindE (parseInt easySolved) (\<lambda>easy.
         bindE (get_prop data (asc ''mediumSolved'')) (\<lambda>mediumSolved.
         bindE (parseInt mediumSolved) (\<lambda>medium.
         bindE (get_prop data (asc ''hardSolved'')) (\<lambda>hardSolved.
         bindE (parseInt hardSolved) (\<lambda>hard.
         bindE (get_prop data (asc ''acceptanceRate'')) (\<lambda>acceptanceRate.
         bindE (parseFloat acceptanceRate) (\<lambda>rate.
           Inr (Some (JObj
             [(asc ''total_solved'', js_or total (jint 0)),
              (asc ''easy'', js_or easy (jint 0)),
              (asc ''medium'', js_or medium (jint 0)),
              (asc ''hard'', js_or hard (jint 0)),
              (asc ''acceptance_rate'', js_or rate (jint 0))])))))))))))))
       else
         bindE (to_string (js_or (get_opt data (asc ''message''))
                  (JStr (asc ''user not found or API error'')))) (\<lambda>logged.
           Inr None))"

definition fetchLeetCodeStats :: "http_outcome \<Rightarrow> js_error + jsval" where
  "fetchLeetCodeStats out =
     (case leetcode_try out of
        Inr (Some stats) \<Rightarrow> Inr stats
      | Inr None \<Rightarrow> Inr JNull
      | Inl error \<Rightarrow> Inr JNull)"

definition contributions_try :: "http_outcome \<Rightarrow> js_error + jsval" where
  "contributions_try out =
     bindE (fetchAPI out) (\<lambda>data.
       if truthy data \<and> get_opt data (asc ''total_count'') \<noteq> JUndef then
         bindE (get_prop data (asc ''total_count'')) (\<lambda>total_count.
         bindE (to_string total_count) (\<lambda>logged.
           Inr total_count))
       else Inr (jint 0))"

definition fetchContributions :: "http_outcome \<Rightarrow> js_error + jsval" where
  "fetchContributions out =
     (case contributions_try out of
        Inr count \<Rightarrow> Inr count
      | Inl error \<Rightarrow> Inr (jint 0))"

section \<open>The merge step of \<^verbatim>\<open>main\<close>\<close>

text \<open>
  The loaded profile record is a YAML mapping: the list of its top-level properties.
  The clock is the sequence of strings that successive \<^verbatim>\<open>new Date().toISOString()\<close>
  calls return; \<^verbatim>\<open>.split("T")[0]\<close> keeps what is before the first \<^verbatim>\<open>T\<close>.
\<close>

type_synonym jsobj = "(jstring \<times> jsval) list"

type_synonym clock = "nat \<Rightarrow> jstring"

definition lookup :: "jsobj \<Rightarrow> jstring \<Rightarrow> jsval" where
  "lookup obj k = (case map_of obj k of None \<Rightarrow> JUndef | Some v \<Rightarrow> v)"

definition iso_date :: "jstring \<Rightarrow> jstring" where
  "iso_date stamp = takeWhile (\<lambda>c. c \<noteq> 84) stamp"

definition ensure_github_stats :: "jsobj \<Rightarrow> jsobj" where
  "ensure_github_stats pd =
     (if \<not> truthy (lookup pd (asc ''github_stats''))
      then AList.update (asc ''github_stats'') (JObj []) pd else pd)"

definition merge_github :: "clock \<Rightarrow> nat \<Rightarrow> jsval \<Rightarrow> jsval \<Rightarrow> jsobj \<Rightarrow> js_error + jsobj \<times> nat" where
  "merge_github clk t githubStats contributions pd =
     (if truthy githubStats then
        Inr (AList.update (asc ''github_stats'')
               (JObj (AList.update (asc ''last_updated'') (JStr (iso_date (clk t)))
                       (AList.update (asc ''total_contributions'') (js_or contributions (jint 0))
                         (spread (spread [] (lookup pd (asc ''github_stats''))) githubStats))))
               pd, t + 1)
      else
        bindE (get_prop (lookup pd (asc ''github_stats'')) (asc ''total_contributions'')) (\<lambda>old.
          Inr (AList.update (asc ''github_stats'')
                 (set_prop (lookup pd (asc ''github_stats'')) (asc ''total_contributions'')
                    (js_or old (jint 0)))
                 pd, t)))"

definition zero_leetcode_stats :: jsval where
  "zero_leetcode_stats =
     JObj [(asc ''total_solved'', jint 0), (asc ''easy'', jint 0), (asc ''medium'', jint 0),
           (asc ''hard'', jint 0), (asc ''acceptance_rate'', jint 0)]"

definition ensure_leetcode_stats :: "jsobj \<Rightarrow> jsobj" where
  "ensure_leetcode_stats pd =
     (if \<not> truthy (lookup pd (asc ''leetcode_stats''))
      then AList.update (asc ''leetcode_stats'') zero_leetcode_stats pd else pd)"

definition merge_leetcode :: "clock \<Rightarrow> nat \<Rightarrow> jsval \<Rightarrow> jsobj \<Rightarrow> jsobj \<times> nat" where
  "merge_leetcode clk t leetcodeStats pd =
     (if truthy leetcodeStats then
        (AList.update (asc ''leetcode_stats'')
           (JObj (AList.update (asc ''last_updated'') (JStr (iso_date (clk t)))
                   (spread (spread [] (lookup pd (asc ''leetcode_stats''))) leetcodeStats)))
           pd, t + 1)
      else (pd, t))"

text \<open>
  Lines 446 to 481 of \<^verbatim>\<open>main\<close>: the record after the merge, and the number of clock
  readings taken so far.
\<close>

definition merge_stats ::
  "clock \<Rightarrow> jsval \<Rightarrow> jsval \<Rightarrow> jsval \<Rightarrow> jsobj \<Rightarrow> js_error + jsobj \<times> nat" where
  "merge_stats clk githubStats leetcodeStats contributions pd =
     bindE (merge_github clk 0 githubStats contributions (ensure_github_stats pd)) (\<lambda>(pd1, t).
       Inr (merge_leetcode clk t leetcodeStats (ensure_leetcode_stats pd1)))"

section \<open>The renderer\<close>

text \<open>The helpers of the README generator; \<^verbatim>\<open>CONTENT_WIDTH\<close> counts
    UTF-16 code units.\<close>

definition CONTENT_WIDTH :: nat where
  "CONTENT_WIDTH = 73"

definition createRow :: "jstring \<Rightarrow> jstring" where
  "createRow content = [9474] @ padEnd CONTENT_WIDTH content @ [9474]"

definition labelRow :: "jstring \<Rightarrow> jsval \<Rightarrow> js_error + jstring" where
  "labelRow label v =
     bindE (to_string v) (\<lambda>s. Inr (createRow (asc ''  '' @ padEnd 18 label @ s)))"

definition sectionHeader :: "jstring \<Rightarrow> jstring \<Rightarrow> js_error + jstring" where
  "sectionHeader emoji title =
     (let headerText = [9472, 32] @ emoji @ [32] @ title @ [32]
      in bindE (repeat [9472] (int CONTENT_WIDTH - int (length headerText))) (\<lambda>rule.
           Inr ([9484] @ headerText @ rule @ [9488])))"

definition sectionFooter :: jstring where
  "sectionFooter = [9492] @ replicate CONTENT_WIDTH 9472 @ [9496]"

definition doubleHeader :: jstring where
  "doubleHeader = [9556] @ replicate CONTENT_WIDTH 9552 @ [9559]"

definition doubleFooter :: jstring where
  "doubleFooter = [9562] @ replicate CONTENT_WIDTH 9552 @ [9565]"

definition doubleRow :: "jstring \<Rightarrow> jstring" where
  "doubleRow content = [9553] @ padEnd CONTENT_WIDTH content @ [9553]"

text \<open>
  A section is a template literal: a newline, then one interpolated expression per line.
  The expressions are evaluated from first to last, and the first that throws ends the
  evaluation.
\<close>

definition section_text :: "jstring list \<Rightarrow> jstring" where
  "section_text ls = [10] @ concat (map (\<lambda>l. l @ [10]) ls)"

definition render_section :: "(js_error + jstring) list \<Rightarrow> js_error + jstring" where
  "render_section rows = bindE (mapE (\<lambda>r. r) rows) (\<lambda>ls. Inr (section_text ls))"

definition generateMatrixHeader :: jstring where
  "generateMatrixHeader = section_text
     [doubleHeader,
      doubleRow [],
      doubleRow (asc ''  '' @ [9608, 9608, 9559] @ asc ''    '' @ [9608, 9608, 9559, 9608, 9608,
          9608, 9608, 9608, 9608, 9608, 9559, 9608, 9608, 9559] @ asc ''      '' @ [9608, 9608,
          9608, 9608, 9608, 9608, 9559, 32, 9608, 9608, 9608, 9608, 9608, 9608, 9559, 32, 9608,
          9608, 9608, 9559] @ asc ''   '' @ [9608, 9608, 9608, 9559, 9608, 9608, 9608, 9608,
          9608, 9608, 9608, 9559, 9608, 9608, 9608, 9608, 9608, 9608, 9608, 9559]),
      doubleRow (asc ''  '' @ [9608, 9608, 9553] @ asc ''    '' @ [9608, 9608, 9553, 9608, 9608,
          9556, 9552, 9552, 9552, 9552, 9565, 9608, 9608, 9553] @ asc ''     '' @ [9608, 9608,
          9556, 9552, 9552, 9552, 9552, 9565, 9608, 9608, 9556, 9552, 9552, 9552, 9608, 9608,
          9559, 9608, 9608, 9608, 9608, 9559, 32, 9608, 9608, 9608, 9608, 9553, 9608, 9608, 9556,
          9552, 9552, 9552, 9552, 9565, 9608, 9608, 9556, 9552, 9552, 9552, 9552, 9565]),
      doubleRow (asc ''  '' @ [9608, 9608, 9553, 32, 9608, 9559, 32, 9608, 9608, 9553, 9608,
          9608, 9608, 9608, 9608, 9559] @ asc ''  '' @ [9608, 9608, 9553] @ asc ''     '' @
          [9608, 9608, 9553] @ asc ''     '' @ [9608, 9608, 9553] @ asc ''   '' @ [9608, 9608,
          9553, 9608, 9608, 9556, 9608, 9608, 9608, 9608, 9556, 9608, 9608, 9553, 9608, 9608,
          9608, 9608, 9608, 9559] @ asc ''  '' @ [9608, 9608, 9608, 9608, 9608, 9559]),
      doubleRow (asc ''  '' @ [9608, 9608, 9553, 9608, 9608, 9608, 9559, 9608, 9608, 9553, 9608,
          9608, 9556, 9552, 9552, 9565] @ asc ''  '' @ [9608, 9608, 9553] @ asc ''     '' @
          [9608, 9608, 9553] @ asc ''     '' @ [9608, 9608, 9553] @ asc ''   '' @ [9608, 9608,
          9553, 9608, 9608, 9553, 9562, 9608, 9608, 9556, 9565, 9608, 9608, 9553, 9608, 9608,
          9556, 9552, 9552, 9565] @ asc ''  '' @ [9608, 9608, 9556, 9552, 9552, 9565]),
      doubleRow (asc ''  '' @ [9562, 9608, 9608, 9608, 9556, 9608, 9608, 9608, 9556, 9565, 9608,
          9608, 9608, 9608, 9608, 9608, 9608, 9559, 9608, 9608, 9608, 9608, 9608, 9608, 9608,
          9559, 9562, 9608, 9608, 9608, 9608, 9608, 9608, 9559, 9562, 9608, 9608, 9608, 9608,
          9608, 9608, 9556, 9565, 9608, 9608, 9553, 32, 9562, 9552, 9565, 32, 9608, 9608, 9553,
          9608, 9608, 9608, 9608, 9608, 9608, 9608, 9559, 9608, 9608, 9608, 9608, 9608, 9608,
          9608, 9559]),
      doubleRow (asc ''   '' @ [9562, 9552, 9552, 9565, 9562, 9552, 9552, 9565, 32, 9562, 9552,
          9552, 9552, 9552, 9552, 9552, 9565, 9562, 9552, 9552, 9552, 9552, 9552, 9552, 9565, 32,
          9562, 9552, 9552, 9552, 9552, 9552, 9565, 32, 9562, 9552, 9552, 9552, 9552, 9552, 9565,
          32, 9562, 9552, 9565] @ asc ''     '' @ [9562, 9552, 9565, 9562, 9552, 9552, 9552,
          9552, 9552, 9552, 9565, 9562, 9552, 9552, 9552, 9552, 9552, 9552, 9565]),
      doubleRow [],
      doubleRow (asc ''                    Welcome to Abir Panda'' @ [39] @ asc
          ''s GitHub Matrix''),
      doubleRow [],
      doubleFooter]"

text \<open>\<^verbatim>\<open>labelRow(label, obj.key)\<close>\<close>

definition field_row :: "jstring \<Rightarrow> jsval \<Rightarrow> jstring \<Rightarrow> js_error
    + jstring" where
  "field_row label obj key = bindE (get_prop obj key) (labelRow label)"

definition generateProfileSection :: "jsval \<Rightarrow> js_error + jstring" where
  "generateProfileSection profile = render_section
     [sectionHeader [55357, 56420] (asc ''PROFILE MATRIX''),
      Inr (createRow []),
      field_row (asc ''Name:'') profile (asc ''name''),
      field_row (asc ''Title:'') profile (asc ''title''),
      field_row (asc ''Location:'') profile (asc ''location''),
      field_row (asc ''Age:'') profile (asc ''age''),
      field_row (asc ''Timezone:'') profile (asc ''timezone''),
      labelRow (asc ''Status:'') (JStr ([55357, 57314] @ asc '' Online 24/7'')),
      Inr (createRow []),
      bindE (get_prop profile (asc ''tagline'')) (\<lambda>tagline.
        bindE (to_string tagline) (\<lambda>s. Inr (createRow (asc ''  Tagline: '' @ [34] @ s @
            [34])))),
      Inr (createRow []),
      Inr sectionFooter]"

text \<open>\<^verbatim>\<open>arr.join(" \<bullet> ")\<close>: only an array has the
    method.\<close>

fun formatArray :: "jsval \<Rightarrow> js_error + jstring" where
  "formatArray (JArr xs) = join_vals ([32, 8226, 32]) xs"
| "formatArray v = Inl TypeError"

definition tech_row :: "jstring \<Rightarrow> jsval \<Rightarrow> jstring \<Rightarrow> js_error
    + jstring" where
  "tech_row label techStack key =
     bindE (get_prop techStack key) (\<lambda>arr.
       bindE (formatArray arr) (\<lambda>s. labelRow label (JStr s)))"

definition generateTechSection :: "jsval \<Rightarrow> js_error + jstring" where
  "generateTechSection techStack = render_section
     [sectionHeader [55357, 57056, 65039, 32] (asc ''TECH ARSENAL''),
      Inr (createRow []),
      tech_row (asc ''Languages:'') techStack (asc ''languages''),
      tech_row (asc ''Frontend:'') techStack (asc ''frontend''),
      tech_row (asc ''Backend:'') techStack (asc ''backend''),
      tech_row (asc ''Databases:'') techStack (asc ''databases''),
      tech_row (asc ''Tools:'') techStack (asc ''tools''),
      Inr (createRow []),
      Inr sectionFooter]"

definition statRow :: "jstring \<Rightarrow> jsval \<Rightarrow> js_error + jstring" where
  "statRow label v =
     bindE (to_string v) (\<lambda>s. Inr (createRow (asc ''  '' @ [9474] @ asc ''  '' @ padEnd
         18 label @ s)))"

text \<open>\<^verbatim>\<open>statRow(label, obj.key || 0)\<close>\<close>

definition stat_field_row :: "jstring \<Rightarrow> jsval \<Rightarrow> jstring \<Rightarrow>
    js_error + jstring" where
  "stat_field_row label obj key =
     bindE (get_prop obj key) (\<lambda>v. statRow label (js_or v (jint 0)))"

text \<open>\<^verbatim>\<open>v.toFixed(2)\<close>: only a number has the method.\<close>

fun toFixed2 :: "jsval \<Rightarrow> js_error + jstring" where
  "toFixed2 (JNum x) = Inr (to_fixed2 x)"
| "toFixed2 v = Inl TypeError"

text \<open>\<^verbatim>\<open>(lc.acceptance_rate || 0).toFixed(2) + "%"\<close>\<close>

definition acceptance_text :: "jsval \<Rightarrow> js_error + jstring" where
  "acceptance_text lc =
     bindE (get_prop lc (asc ''acceptance_rate'')) (\<lambda>rate.
       bindE (toFixed2 (js_or rate (jint 0))) (\<lambda>s. Inr (s @ [37])))"

definition default_github :: jsval where
  "default_github =
     JObj [((asc ''followers''), jint 0), ((asc ''following''), jint 0), ((asc ''public_repos''),
         jint 0)]"

text \<open>
  \<^verbatim>\<open>generateStatsSection\<close>; \<open>stamp\<close> is what
      \<^verbatim>\<open>new Date().toISOString()\<close> returns when
  the section is built.
\<close>

definition generateStatsSection :: "jstring \<Rightarrow> jsval \<Rightarrow> jsval \<Rightarrow>
    jsval \<Rightarrow> js_error + jstring" where
  "generateStatsSection stamp github leetcode profile =
     (let gh = js_or github default_github;
          lc = js_or leetcode zero_leetcode_stats;
          contributions =
            js_or (get_opt (get_opt profile (asc ''github_stats'')) (asc
                ''total_contributions'')) (jint 0);
          date = iso_date stamp
      in render_section
        [sectionHeader [55357, 56522] (asc ''LIVE METRICS (Updated Daily)''),
         Inr (createRow []),
         Inr (createRow (asc ''  '' @ [9581, 9472] @ asc '' GITHUB STATS'')),
         stat_field_row (asc ''Followers:'') gh (asc ''followers''),
         stat_field_row (asc ''Following:'') gh (asc ''following''),
         stat_field_row (asc ''Repositories:'') gh (asc ''public_repos''),
         statRow (asc ''Contributions:'') contributions,
         Inr (createRow (asc ''  '' @ [9584, 9472] @ asc '' Last Updated: '' @ date)),
         Inr (createRow []),
         Inr (createRow (asc ''  '' @ [9581, 9472] @ asc '' LEETCODE STATS'')),
         stat_field_row (asc ''Total Solved:'') lc (asc ''total_solved''),
         stat_field_row (asc ''Easy:'') lc (asc ''easy''),
         stat_field_row (asc ''Medium:'') lc (asc ''medium''),
         stat_field_row (asc ''Hard:'') lc (asc ''hard''),
         bindE (acceptance_text lc) (\<lambda>s. statRow (asc ''Acceptance Rate:'') (JStr s)),
         Inr (createRow (asc ''  '' @ [9584, 9472] @ asc '' Last Updated: '' @ date)),
         Inr (createRow []),
         Inr sectionFooter])"

text \<open>\<^verbatim>\<open>arr.map(x => createRow(`${prefix}${x}`)).join("\n")\<close>: only
    an array has \<^verbatim>\<open>map\<close>.\<close>

fun bullet_rows :: "jstring \<Rightarrow> jsval \<Rightarrow> js_error + jstring" where
  "bullet_rows prefix (JArr xs) =
     bindE (mapE (\<lambda>x. bindE (to_string x) (\<lambda>s. Inr (createRow (prefix @ s)))) xs)
         (\<lambda>rows.
       Inr (join_strs [10] rows))"
| "bullet_rows prefix v = Inl TypeError"

definition default_mission :: jsval where
  "default_mission =
     JObj [((asc ''status''), JStr (asc ''Unknown'')), ((asc ''mode''), JStr (asc ''Learning'')),
           ((asc ''weapons''), JArr []), ((asc ''weaknesses''), JArr []),
           ((asc ''next_level''), JStr (asc ''Keep improving''))]"

text \<open>\<^verbatim>\<open>labelRow(label, m.key || "")\<close>\<close>

definition mission_row :: "jstring \<Rightarrow> jsval \<Rightarrow> jstring \<Rightarrow>
    js_error + jstring" where
  "mission_row label m key =
     bindE (get_prop m key) (\<lambda>v. labelRow label (js_or v (JStr [])))"

definition generateMissionSection :: "jsval \<Rightarrow> js_error + jstring" where
  "generateMissionSection mission =
     (let m = js_or mission default_mission
      in bindE (get_prop m (asc ''weapons'')) (\<lambda>weapons.
         bindE (bullet_rows (asc ''    '' @ [9889, 32]) (js_or weapons (JArr [])))
             (\<lambda>weaponRows.
         bindE (get_prop m (asc ''weaknesses'')) (\<lambda>weaknesses.
         bindE (bullet_rows (asc ''    '' @ [9888, 65039] @ asc ''  '') (js_or weaknesses (JArr
             []))) (\<lambda>weaknessRows.
           render_section
             [sectionHeader [55357, 56960] (asc ''CURRENT MISSION STATUS''),
              Inr (createRow []),
              mission_row (asc ''Status:'') m (asc ''status''),
              mission_row (asc ''Mode:'') m (asc ''mode''),
              Inr (createRow []),
              Inr (createRow (asc ''  Weapons Arsenal:'')),
              Inr weaponRows,
              Inr (createRow []),
              Inr (createRow (asc ''  Known Weaknesses:'')),
              Inr weaknessRows,
              Inr (createRow []),
              mission_row (asc ''Next Level:'') m (asc ''next_level''),
              Inr (createRow []),
              Inr sectionFooter])))))"

text \<open>\<^verbatim>\<open>Object.values(v)\<close>\<close>

fun object_values :: "jsval \<Rightarrow> js_error + jsval list" where
  "object_values JUndef = Inl TypeError"
| "object_values JNull = Inl TypeError"
| "object_values (JArr xs) = Inr xs"
| "object_values (JObj kvs) = Inr (map snd kvs)"
| "object_values (JStr s) = Inr (map (\<lambda>c. JStr [c]) s)"
| "object_values v = Inr []"

text \<open>The five rows that the \<^verbatim>\<open>forEach\<close> callback pushes for the
    project at index \<open>idx\<close>.\<close>

definition project_rows :: "nat \<Rightarrow> jsval \<Rightarrow> js_error + jstring list" where
  "project_rows idx proj =
     bindE (get_prop proj (asc ''name'')) (\<lambda>name.
     bindE (to_string name) (\<lambda>name_s.
     bindE (get_prop proj (asc ''description'')) (\<lambda>description.
     bindE (to_string description) (\<lambda>description_s.
     bindE (get_prop proj (asc ''tech'')) (\<lambda>tech.
     bindE (formatArray tech) (\<lambda>tech_s.
     bindE (get_prop proj (asc ''status'')) (\<lambda>status.
     bindE (to_string status) (\<lambda>status_s.
       Inr [createRow (asc ''  '' @ nat_digits (idx + 1) @ asc ''. '' @ name_s),
            createRow (asc ''     Description: '' @ description_s),
            createRow (asc ''     Tech Stack:  '' @ tech_s),
            createRow (asc ''     Status:      '' @ status_s),
            createRow []]))))))))"

fun projects_loop :: "nat \<Rightarrow> jsval list \<Rightarrow> js_error + jstring list" where
  "projects_loop idx [] = Inr []"
| "projects_loop idx (proj # rest) =
     bindE (project_rows idx proj) (\<lambda>rows.
       bindE (projects_loop (idx + 1) rest) (\<lambda>more. Inr (rows @ more)))"

definition generateProjectsSection :: "jsval \<Rightarrow> js_error + jstring" where
  "generateProjectsSection projects =
     bindE (object_values projects) (\<lambda>projs.
     bindE (projects_loop 0 projs) (\<lambda>rows.
       render_section
         [sectionHeader [55357, 56513] (asc ''CURRENT PROJECTS''),
          Inr (createRow []),
          Inr (join_strs [10] rows),
          Inr sectionFooter]))"

definition generateGoalsSection :: "jsval \<Rightarrow> js_error + jstring" where
  "generateGoalsSection goals =
     bindE (get_prop goals (asc ''short_term'')) (\<lambda>short_term.
     bindE (bullet_rows (asc ''    '' @ [10003, 32]) short_term) (\<lambda>shortTermRows.
     bindE (get_prop goals (asc ''long_term'')) (\<lambda>long_term.
     bindE (bullet_rows (asc ''    '' @ [9733, 32]) long_term) (\<lambda>longTermRows.
       render_section
         [sectionHeader [55356, 57263] (asc ''GOALS & ASPIRATIONS''),
          Inr (createRow []),
          Inr (createRow (asc ''  Short Term:'')),
          Inr shortTermRows,
          Inr (createRow []),
          Inr (createRow (asc ''  Long Term:'')),
          Inr longTermRows,
          Inr (createRow []),
          Inr sectionFooter]))))"

text \<open>\<^verbatim>\<open>labelRow(label, s.key || "N/A")\<close>\<close>

definition social_row :: "jstring \<Rightarrow> jsval \<Rightarrow> jstring \<Rightarrow>
    js_error + jstring" where
  "social_row label s key =
     bindE (get_prop s key) (\<lambda>v. labelRow label (js_or v (JStr (asc ''N/A''))))"

definition generateSocialSection :: "jsval \<Rightarrow> js_error + jstring" where
  "generateSocialSection social =
     (let s = js_or social (JObj [])
      in render_section
        [sectionHeader [55357, 56542] (asc ''CONNECT & COLLABORATE''),
         Inr (createRow []),
         social_row (asc ''GitHub:'') s (asc ''github''),
         social_row (asc ''LinkedIn:'') s (asc ''linkedin''),
         social_row (asc ''Twitter:'') s (asc ''twitter''),
         social_row (asc ''Email:'') s (asc ''email''),
         social_row (asc ''Portfolio:'') s (asc ''portfolio''),
         Inr (createRow []),
         Inr (createRow (asc ''  Let'' @ [39] @ asc
             ''s collaborate on building scalable systems! '' @ [55357, 56960])),
         Inr (createRow []),
         Inr sectionFooter])"

text \<open>\<^verbatim>\<open>generateFooter\<close>; \<open>now\<close> is what
    \<^verbatim>\<open>new Date().toISOString()\<close> returns there.\<close>

definition generateFooter :: "jstring \<Rightarrow> jstring" where
  "generateFooter now = section_text
     [doubleHeader,
      doubleRow (asc ''  Last Updated: '' @ now),
      doubleRow (asc ''  Auto-updated daily via GitHub Actions '' @ [8226]),
      doubleRow [],
      doubleRow (asc ''  '' @ [34] @ asc ''Code today, scale tomorrow'' @ [34] @ asc
          '' - Abir Panda''),
      doubleFooter]"

text \<open>
  \<^verbatim>\<open>generateREADME\<close>. The clock is read once in the metrics section and
      once in the
  footer; \<open>t\<close> is the number of readings taken before.
\<close>

definition generateREADME ::
  "clock \<Rightarrow> nat \<Rightarrow> jsval \<Rightarrow> jsval \<Rightarrow> jsval
      \<Rightarrow> jsval \<Rightarrow> jsval \<Rightarrow> jsval \<Rightarrow> jsval
     \<Rightarrow> js_error + jstring" where
  "generateREADME clk t profile techStack mission projects goals social stats =
     bindE (generateProfileSection profile) (\<lambda>profile_s.
     bindE (generateTechSection techStack) (\<lambda>tech_s.
     bindE (get_prop stats (asc ''github'')) (\<lambda>github.
     bindE (get_prop stats (asc ''leetcode'')) (\<lambda>leetcode.
     bindE (generateStatsSection (clk t) github leetcode profile) (\<lambda>stats_s.
     bindE (generateMissionSection mission) (\<lambda>mission_s.
     bindE (generateProjectsSection projects) (\<lambda>projects_s.
     bindE (generateGoalsSection goals) (\<lambda>goals_s.
     bindE (generateSocialSection social) (\<lambda>social_s.
       Inr ([96, 96, 96] @ asc ''yml'' @ [10] @ generateMatrixHeader @ profile_s @ tech_s @
           stats_s @ mission_s
            @ projects_s @ goals_s @ social_s @ generateFooter (clk (t + 1))
            @ [10] @ [96, 96, 96]))))))))))"

section \<open>One run of \<^verbatim>\<open>main\<close>\<close>

text \<open>
  The arguments that \<^verbatim>\<open>main\<close> hands to
      \<^verbatim>\<open>generateREADME\<close>, taken from the record it has
  just saved.
\<close>

definition render_profile :: "clock \<Rightarrow> nat \<Rightarrow> jsobj \<Rightarrow> js_error
    + jstring" where
  "render_profile clk t pd =
     generateREADME clk t
       (lookup pd (asc ''profile'')) (lookup pd (asc ''tech_stack'')) (lookup pd (asc
           ''current_mission''))
       (lookup pd (asc ''current_projects'')) (lookup pd (asc ''goals'')) (lookup pd (asc
           ''social''))
       (JObj [((asc ''github''), lookup pd (asc ''github_stats'')),
              ((asc ''leetcode''), lookup pd (asc ''leetcode_stats''))])"

text \<open>
  The run from the loaded record on: the three collectors, the merge, the save, the
  rendering. The result is the record handed to \<^verbatim>\<open>yaml.dump\<close> and the
      document handed to
  \<^verbatim>\<open>fs.writeFileSync\<close>, or the error that ends the run with exit status 1.
      Failures of
  the file system are not part of the model.
\<close>

definition main_run ::
  "clock \<Rightarrow> http_outcome \<Rightarrow> http_outcome \<Rightarrow> http_outcome
      \<Rightarrow> jsobj
     \<Rightarrow> js_error + jsobj \<times> (js_error + jstring)" where
  "main_run clk gh_out lc_out co_out profileData =
     bindE (fetchGitHubStats gh_out) (\<lambda>githubStats.
     bindE (fetchLeetCodeStats lc_out) (\<lambda>leetcodeStats.
     bindE (fetchContributions co_out) (\<lambda>contributions.
     bindE (merge_stats clk githubStats leetcodeStats contributions profileData)
         (\<lambda>(merged, t).
       Inr (merged, render_profile clk t merged)))))"

section \<open>The hand-padded copy of the renderer\<close>

text \<open>
  The repository holds a second copy of the script. It differs in the renderer, which pads
  every field by hand instead of calling \<^verbatim>\<open>createRow\<close>. Two places of that copy are
  modelled: the rows of a project and the acceptance-rate cell.
\<close>

text \<open>\<^verbatim>\<open>v.padEnd(n)\<close> and \<^verbatim>\<open>v.slice(0, n).padEnd(m)\<close>: only a string has \<^verbatim>\<open>padEnd\<close>.\<close>

fun str_padEnd :: "nat \<Rightarrow> jsval \<Rightarrow> js_error + jstring" where
  "str_padEnd n (JStr s) = Inr (padEnd n s)"
| "str_padEnd n v = Inl TypeError"

fun str_slice_padEnd :: "nat \<Rightarrow> nat \<Rightarrow> jsval \<Rightarrow> js_error + jstring" where
  "str_slice_padEnd n m (JStr s) = Inr (padEnd m (slice0 n s))"
| "str_slice_padEnd n m v = Inl TypeError"

text \<open>The lines that the \<^verbatim>\<open>forEach\<close> callback of the second copy appends for one project.\<close>

definition project_rows_padded :: "nat \<Rightarrow> jsval \<Rightarrow> js_error + jstring list" where
  "project_rows_padded idx proj =
     bindE (get_prop proj (asc ''name'')) (\<lambda>name.
     bindE (str_padEnd 67 name) (\<lambda>name_s.
     bindE (get_prop proj (asc ''description'')) (\<lambda>description.
     bindE (str_slice_padEnd 55 57 description) (\<lambda>description_s.
     bindE (get_prop proj (asc ''tech'')) (\<lambda>tech.
     bindE (formatArray tech) (\<lambda>joined.
     bindE (get_prop proj (asc ''status'')) (\<lambda>status.
     bindE (str_padEnd 57 status) (\<lambda>status_s.
       Inr [[9474] @ asc ''  '' @ nat_digits (idx + 1) @ asc ''. '' @ name_s @ asc ''  '' @ [9474],
            [9474] @ asc ''     Description: '' @ description_s @ asc ''  '' @ [9474],
            [9474] @ asc ''     Tech Stack:  '' @ padEnd 57 (slice0 50 joined) @ asc ''  '' @ [9474],
            [9474] @ asc ''     Status:      '' @ status_s @ asc ''  '' @ [9474],
            [9474] @ replicate 75 32 @ [9474]]))))))))"

text \<open>\<^verbatim>\<open>(leetcodeStats.acceptance_rate || 0).toFixed(2) + "%".padEnd(44)\<close> of the second copy.\<close>

definition acceptance_cell_padded :: "jsval \<Rightarrow> js_error + jstring" where
  "acceptance_cell_padded lc =
     bindE (get_prop lc (asc ''acceptance_rate'')) (\<lambda>rate.
       bindE (toFixed2 (js_or rate (jint 0))) (\<lambda>s. Inr (s @ padEnd 44 [37])))"

section \<open>Predicates used in the statements\<close>

text \<open>
  The layout that the specification describes, stated on its own: a row is its content,
  padded with trailing spaces to 73 code units, between two border characters; a box is a
  line feed followed by its rows, each ended by a line feed.
\<close>

definition padded_row :: "nat \<Rightarrow> jstring \<Rightarrow> jstring" where
  "padded_row border content = border # content @ replicate (73 - length content) 32 @ [border]"

definition laid_out :: "jstring list \<Rightarrow> jstring" where
  "laid_out rows = 10 # concat (map (\<lambda>row. row @ [10]) rows)"

text \<open>
  The rows of a box. A rule row is a top or bottom border, 75 code units wide. A content
  row has the same vertical border at both ends and at least 73 code units between them.
  An empty list of goals, weapons, weaknesses or projects leaves an empty row.
\<close>

definition rule_row :: "jstring \<Rightarrow> bool" where
  "rule_row r =
     (length r = 75
      \<and> (hd r, last r) \<in> {(9484, 9488), (9492, 9496), (9556, 9559), (9562, 9565)})"

definition content_row :: "jstring \<Rightarrow> bool" where
  "content_row r = (75 \<le> length r \<and> hd r = last r \<and> (hd r = 9474 \<or> hd r = 9553))"

definition row_form :: "jstring \<Rightarrow> bool" where
  "row_form r = (r = [] \<or> rule_row r \<or> content_row r)"









text \<open>
  A string that ends in a decimal point, two digits and a percent sign, after one digit or
  more and an optional minus sign; read from its end.
\<close>

definition int_part_rev :: "jstring \<Rightarrow> bool" where
  "int_part_rev ip =
     (let ds = (if ip \<noteq> [] \<and> last ip = 45 then butlast ip else ip)
      in ds \<noteq> [] \<and> list_all is_digit ds)"

fun fixed2_rev :: "jstring \<Rightarrow> bool" where
  "fixed2_rev (pc # d2 # d1 # dot # ip) =
     (pc = 37 \<and> is_digit d2 \<and> is_digit d1 \<and> dot = 46 \<and> int_part_rev ip)"
| "fixed2_rev s = False"

definition is_fixed2_percent :: "jstring \<Rightarrow> bool" where
  "is_fixed2_percent s = fixed2_rev (rev s)"

text \<open>A number that \<^verbatim>\<open>toFixed\<close> does not print in fixed notation: infinite, or \<open>10^21\<close> and beyond.\<close>

fun huge :: "jsval \<Rightarrow> bool" where
  "huge (JNum (Infinity neg)) = True"
| "huge (JNum (Dec m e)) = ge_1e21 (nat \<bar>m\<bar>) e"
| "huge v = False"

text \<open>
  A value that converts to a string: anything but an object that has a property
  \<^verbatim>\<open>toString\<close> of its own, or an array that holds such an object.
\<close>

fun printable :: "jsval \<Rightarrow> bool" where
  "printable (JObj kvs) = (asc ''toString'' \<notin> fst ` set kvs)"
| "printable (JArr xs) = (\<forall>x \<in> set xs. printable x)"
| "printable v = True"

definition printable_list :: "jsval \<Rightarrow> bool" where
  "printable_list v = (case v of JArr xs \<Rightarrow> list_all printable xs | _ \<Rightarrow> False)"

definition present :: "jsval \<Rightarrow> bool" where
  "present v = (v \<noteq> JUndef \<and> v \<noteq> JNull)"

definition fields_printable :: "jsval \<Rightarrow> jstring list \<Rightarrow> bool" where
  "fields_printable v ks = list_all (\<lambda>k. printable (get_opt v k)) ks"

text \<open>
  The shape of a record that the renderer can print. The \<^verbatim>\<open>profile\<close> sub-record is there;
  \<^verbatim>\<open>tech_stack\<close> has its five lists and \<^verbatim>\<open>goals\<close> its two; every project is there and has a
  \<^verbatim>\<open>tech\<close> list. The statistics, the mission and the social links may be missing, and so
  may any field that is not a list.
\<close>

definition profile_ok :: "jsval \<Rightarrow> bool" where
  "profile_ok p =
     (present p
      \<and> fields_printable p [asc ''name'', asc ''title'', asc ''location'', asc ''age'',
           asc ''timezone'', asc ''tagline'']
      \<and> printable (get_opt (get_opt p (asc ''github_stats'')) (asc ''total_contributions'')))"

definition tech_ok :: "jsval \<Rightarrow> bool" where
  "tech_ok ts =
     list_all (\<lambda>k. printable_list (get_opt ts k))
       [asc ''languages'', asc ''frontend'', asc ''backend'', asc ''databases'', asc ''tools'']"

definition rate_ok :: "jsval \<Rightarrow> bool" where
  "rate_ok v = (case v of JNum x \<Rightarrow> True | _ \<Rightarrow> \<not> truthy v)"

definition stats_ok :: "jsval \<Rightarrow> jsval \<Rightarrow> bool" where
  "stats_ok gh lc =
     ((\<not> truthy gh
       \<or> fields_printable gh [asc ''followers'', asc ''following'', asc ''public_repos''])
      \<and> (\<not> truthy lc
          \<or> (fields_printable lc [asc ''total_solved'', asc ''easy'', asc ''medium'', asc ''hard'']
              \<and> rate_ok (get_opt lc (asc ''acceptance_rate'')))))"

definition optional_list :: "jsval \<Rightarrow> bool" where
  "optional_list v = (\<not> truthy v \<or> printable_list v)"

definition mission_ok :: "jsval \<Rightarrow> bool" where
  "mission_ok m =
     (\<not> truthy m
      \<or> (fields_printable m [asc ''status'', asc ''mode'', asc ''next_level'']
          \<and> optional_list (get_opt m (asc ''weapons''))
          \<and> optional_list (get_opt m (asc ''weaknesses''))))"

definition project_ok :: "jsval \<Rightarrow> bool" where
  "project_ok proj =
     (present proj
      \<and> fields_printable proj [asc ''name'', asc ''description'', asc ''status'']
      \<and> printable_list (get_opt proj (asc ''tech'')))"

definition projects_ok :: "jsval \<Rightarrow> bool" where
  "projects_ok projects =
     (case object_values projects of Inl e \<Rightarrow> False | Inr projs \<Rightarrow> list_all project_ok projs)"

definition goals_ok :: "jsval \<Rightarrow> bool" where
  "goals_ok goals =
     (printable_list (get_opt goals (asc ''short_term''))
      \<and> printable_list (get_opt goals (asc ''long_term'')))"

definition social_ok :: "jsval \<Rightarrow> bool" where
  "social_ok s =
     (\<not> truthy s
      \<or> fields_printable s [asc ''github'', asc ''linkedin'', asc ''twitter'', asc ''email'',
           asc ''portfolio''])"

definition renderable :: "jsobj \<Rightarrow> bool" where
  "renderable pd =
     (profile_ok (lookup pd (asc ''profile''))
      \<and> tech_ok (lookup pd (asc ''tech_stack''))
      \<and> stats_ok (lookup pd (asc ''github_stats'')) (lookup pd (asc ''leetcode_stats''))
      \<and> mission_ok (lookup pd (asc ''current_mission''))
      \<and> projects_ok (lookup pd (asc ''current_projects''))
      \<and> goals_ok (lookup pd (asc ''goals''))
      \<and> social_ok (lookup pd (asc ''social'')))"

section \<open>Inputs used in the examples\<close>

definition frozen_clock :: "jstring \<Rightarrow> clock" where
  "frozen_clock stamp = (\<lambda>n. stamp)"

definition marker_error_body :: jsval where
  "marker_error_body =
     JObj [(asc ''status'', JStr (asc ''error'')), (asc ''message'', JStr (asc ''user not found''))]"

text \<open>The three payloads of the worked scenario.\<close>

definition host_payload :: jsval where
  "host_payload =
     JObj [(asc ''followers'', jint 8), (asc ''following'', jint 5), (asc ''public_repos'', jint 45)]"

definition practice_payload :: jsval where
  "practice_payload =
     JObj [(asc ''status'', JStr (asc ''success'')), (asc ''totalSolved'', jint 145),
           (asc ''easySolved'', jint 63), (asc ''mediumSolved'', jint 75),
           (asc ''hardSolved'', jint 7), (asc ''acceptanceRate'', JNum (Dec 523 (- 1)))]"

definition count_payload :: jsval where
  "count_payload = JObj [(asc ''total_count'', jint 310)]"

text \<open>A stored record that already has both statistics sub-records.\<close>

definition stored_profile :: jsobj where
  "stored_profile =
     [(asc ''profile'', JObj [(asc ''name'', JStr (asc ''Abir Panda''))]),
      (asc ''github_stats'',
         JObj [(asc ''followers'', jint 8), (asc ''total_contributions'', jint 310),
               (asc ''last_updated'', JStr (asc ''2026-10-31''))]),
      (asc ''leetcode_stats'',
         JObj [(asc ''total_solved'', jint 145), (asc ''acceptance_rate'', JNum (Dec 523 (- 1)))])]"

definition morning :: jstring where
  "morning = asc ''2026-11-01T06:30:00.000Z''"

text \<open>
  A later instant of the same day, and a clock that reads \<open>morning\<close> at its second reading
  and \<open>evening\<close> at every other one.
\<close>

definition evening :: jstring where
  "evening = asc ''2026-11-01T21:45:10.250Z''"

definition drifting_clock :: clock where
  "drifting_clock = (\<lambda>n. if n = 1 then morning else evening)"







text \<open>A project whose description has 60 characters.\<close>

definition long_project :: jsval where
  "long_project =
     JObj [(asc ''name'', JStr (asc ''Blem'')), (asc ''description'', JStr (replicate 60 120)),
           (asc ''tech'', JArr [JStr (asc ''Next.js'')]), (asc ''status'', JStr (asc ''Active''))]"

text \<open>
  A record with nothing but what the renderer cannot do without, and the same record
  without its \<^verbatim>\<open>tech_stack\<close>.
\<close>

definition bare_profile :: jsobj where
  "bare_profile =
     [(asc ''profile'', JObj [(asc ''title'', JStr (asc ''Web Developer''))]),
      (asc ''tech_stack'',
         JObj [(asc ''languages'', JArr [JStr (asc ''JavaScript''), JStr (asc ''Go'')]),
               (asc ''frontend'', JArr []), (asc ''backend'', JArr []),
               (asc ''databases'', JArr []), (asc ''tools'', JArr [])]),
      (asc ''current_projects'', JArr []),
      (asc ''goals'', JObj [(asc ''short_term'', JArr []), (asc ''long_term'', JArr [])])]"

definition profile_without_tech :: jsobj where
  "profile_without_tech =
     [(asc ''profile'', JObj [(asc ''title'', JStr (asc ''Web Developer''))]),
      (asc ''current_projects'', JArr []),
      (asc ''goals'', JObj [(asc ''short_term'', JArr []), (asc ''long_term'', JArr [])])]"

section \<open>Properties of the collectors\<close>

text \<open>
  C1. When the request fails, or the body is not JSON, each collector returns its default:
  \<^verbatim>\<open>null\<close> for the host statistics and the practice statistics, \<open>0\<close> for the contribution
  count. The practice collector also returns \<^verbatim>\<open>null\<close> when the payload does not carry
  \<^verbatim>\<open>status === "success"\<close>. Whatever the request comes to, no collector throws.
\<close>

theorem collectors_degrade_on_failure:
  "fetchGitHubStats (TransportFailure msg) = Inr JNull
   \<and> fetchLeetCodeStats (TransportFailure msg) = Inr JNull
   \<and> fetchContributions (TransportFailure msg) = Inr (jint 0)
   \<and> fetchGitHubStats BadBody = Inr JNull
   \<and> fetchLeetCodeStats BadBody = Inr JNull
   \<and> fetchContributions BadBody = Inr (jint 0)
   \<and> (get_opt v (asc ''status'') \<noteq> JStr (asc ''success'')
        \<longrightarrow> fetchLeetCodeStats (JsonBody v) = Inr JNull)
   \<and> (\<exists>r. fetchGitHubStats out = Inr r)
   \<and> (\<exists>r. fetchLeetCodeStats out = Inr r)
   \<and> (\<exists>r. fetchContributions out = Inr r)"
proof -
  have transport: "fetchGitHubStats (TransportFailure msg) = Inr JNull"
    "fetchLeetCodeStats (TransportFailure msg) = Inr JNull"
    "fetchContributions (TransportFailure msg) = Inr (jint 0)"
    by (simp_all add: fetchGitHubStats_def github_try_def fetchLeetCodeStats_def leetcode_try_def
        fetchContributions_def contributions_try_def bindE_def)
  have bad: "fetchGitHubStats BadBody = Inr JNull"
    "fetchLeetCodeStats BadBody = Inr JNull"
    "fetchContributions BadBody = Inr (jint 0)"
    by (simp_all add: fetchGitHubStats_def github_try_def fetchLeetCodeStats_def leetcode_try_def
        fetchContributions_def contributions_try_def bindE_def get_opt_def js_or_def)
  have marker: "fetchLeetCodeStats (JsonBody v) = Inr JNull"
    if "get_opt v (asc ''status'') \<noteq> JStr (asc ''success'')"
    using that
    by (simp add: fetchLeetCodeStats_def leetcode_try_def bindE_def split: sum.splits)
  have total: "\<exists>r. fetchGitHubStats out = Inr r" "\<exists>r. fetchLeetCodeStats out = Inr r"
    "\<exists>r. fetchContributions out = Inr r"
    by (simp_all add: fetchGitHubStats_def fetchLeetCodeStats_def fetchContributions_def
        split: sum.splits option.splits)
  from transport bad marker total show ?thesis by blast
qed

theorem collectors_degrade_on_failure_witness:
  "get_opt marker_error_body (asc ''status'') \<noteq> JStr (asc ''success'')
   \<and> fetchLeetCodeStats (JsonBody marker_error_body) = Inr JNull"
  using collectors_degrade_on_failure [where v = marker_error_body]
  by (simp add: marker_error_body_def get_opt_def asc_def)

section \<open>Properties of the merge step\<close>

lemma bindE_Inr_iff: "(bindE m f = Inr y) = (\<exists>x. m = Inr x \<and> f x = Inr y)"
  by (cases m) (simp_all add: bindE_def)

lemma length_asc: "length (asc s) = length s"
  by (simp add: asc_def)

lemma printable_to_string:
  "printable v \<Longrightarrow> \<exists>s. to_string v = Inr s"
  "(\<forall>x \<in> set xs. printable x) \<Longrightarrow> \<exists>s. join_vals sep xs = Inr s"
proof (induction v and sep xs rule: to_string_join_vals.induct)
  case (9 sep x xs)
  then show ?case
    by (cases "x = JUndef \<or> x = JNull"; cases "xs = []") (auto simp: bindE_def)
qed simp_all

lemma createRow_padded: "createRow content = padded_row 9474 content"
  by (simp add: createRow_def padded_row_def padEnd_def CONTENT_WIDTH_def)

lemma doubleRow_padded: "doubleRow content = padded_row 9553 content"
  by (simp add: doubleRow_def padded_row_def padEnd_def CONTENT_WIDTH_def)

lemma section_text_laid_out: "section_text rows = laid_out rows"
  by (simp add: section_text_def laid_out_def)

lemma iso_date_split: "84 \<notin> set d \<Longrightarrow> iso_date (d @ 84 # r) = d"
  by (induction d) (simp_all add: iso_date_def)

lemma lookup_update:
  "lookup (AList.update k v al) k' = (if k' = k then v else lookup al k')"
  by (simp add: lookup_def update_conv')

lemma get_prop_truthy: "truthy v \<Longrightarrow> get_prop v k = Inr (get_opt v k)"
  by (cases v) (simp_all add: get_opt_def)

lemma truthy_ensure_github: "truthy (lookup (ensure_github_stats pd) (asc ''github_stats''))"
  by (simp add: ensure_github_stats_def lookup_update)

lemma map_of_ensure_github:
  "k \<noteq> asc ''github_stats'' \<Longrightarrow> map_of (ensure_github_stats pd) k = map_of pd k"
  by (simp add: ensure_github_stats_def update_conv')

lemma map_of_ensure_leetcode:
  "k \<noteq> asc ''leetcode_stats'' \<Longrightarrow> map_of (ensure_leetcode_stats pd) k = map_of pd k"
  by (simp add: ensure_leetcode_stats_def update_conv')

lemma merge_github_total:
  "truthy (lookup pd (asc ''github_stats'')) \<Longrightarrow>
   \<exists>pd' t'. merge_github clk t g c pd = Inr (pd', t')
     \<and> (\<forall>k. k \<noteq> asc ''github_stats'' \<longrightarrow> map_of pd' k = map_of pd k)"
  by (simp add: merge_github_def get_prop_truthy bindE_def update_conv')

lemma merge_leetcode_frame:
  "merge_leetcode clk t l pd = (pd', t') \<Longrightarrow> k \<noteq> asc ''leetcode_stats'' \<Longrightarrow>
   map_of pd' k = map_of pd k"
  by (auto simp: merge_leetcode_def update_conv' split: if_splits)

lemma merge_stats_frame:
  "\<exists>merged t. merge_stats clk g l c pd = Inr (merged, t)
     \<and> (\<forall>k. k \<noteq> asc ''github_stats'' \<longrightarrow> k \<noteq> asc ''leetcode_stats''
            \<longrightarrow> map_of merged k = map_of pd k)"
proof -
  obtain pd1 t1 where m1: "merge_github clk 0 g c (ensure_github_stats pd) = Inr (pd1, t1)"
    and f1: "\<forall>k. k \<noteq> asc ''github_stats'' \<longrightarrow> map_of pd1 k = map_of (ensure_github_stats pd) k"
    using merge_github_total [OF truthy_ensure_github] by blast
  obtain pd2 t2 where m2: "merge_leetcode clk t1 l (ensure_leetcode_stats pd1) = (pd2, t2)"
    by (cases "merge_leetcode clk t1 l (ensure_leetcode_stats pd1)")
  have "merge_stats clk g l c pd = Inr (pd2, t2)"
    by (simp add: merge_stats_def m1 m2 bindE_def)
  moreover have "map_of pd2 k = map_of pd k"
    if "k \<noteq> asc ''github_stats''" "k \<noteq> asc ''leetcode_stats''" for k
    using merge_leetcode_frame [OF m2 that(2)] map_of_ensure_leetcode [OF that(2)] f1 that(1)
      map_of_ensure_github [OF that(1)]
    by simp
  ultimately show ?thesis by blast
qed

lemma collectors_return:
  obtains g l c where "fetchGitHubStats go = Inr g" "fetchLeetCodeStats lo = Inr l"
    "fetchContributions co = Inr c"
proof -
  have "\<exists>r. fetchGitHubStats go = Inr r" "\<exists>r. fetchLeetCodeStats lo = Inr r"
    "\<exists>r. fetchContributions co = Inr r"
    by (simp_all add: fetchGitHubStats_def fetchLeetCodeStats_def fetchContributions_def
        split: sum.splits option.splits)
  then show ?thesis using that by blast
qed

text \<open>
  C10. Whatever the record that was loaded and whatever the three requests come to, the run
  reaches the save with a record that differs from the loaded one at most under the keys
  \<^verbatim>\<open>github_stats\<close> and \<^verbatim>\<open>leetcode_stats\<close>, and the renderer is called with the loaded
  \<^verbatim>\<open>profile\<close>, \<^verbatim>\<open>tech_stack\<close>, \<^verbatim>\<open>current_mission\<close>, \<^verbatim>\<open>current_projects\<close>, \<^verbatim>\<open>goals\<close> and
  \<^verbatim>\<open>social\<close> values.
\<close>

theorem merge_touches_only_stats:
  "\<exists>merged t. main_run clk gh_out lc_out co_out pd = Inr (merged, render_profile clk t merged)
     \<and> (\<forall>k. k \<noteq> asc ''github_stats'' \<longrightarrow> k \<noteq> asc ''leetcode_stats''
            \<longrightarrow> map_of merged k = map_of pd k)
     \<and> render_profile clk t merged =
         generateREADME clk t
           (lookup pd (asc ''profile'')) (lookup pd (asc ''tech_stack''))
           (lookup pd (asc ''current_mission'')) (lookup pd (asc ''current_projects''))
           (lookup pd (asc ''goals'')) (lookup pd (asc ''social''))
           (JObj [(asc ''github'', lookup merged (asc ''github_stats'')),
                  (asc ''leetcode'', lookup merged (asc ''leetcode_stats''))])"
proof -
  obtain g l c where col: "fetchGitHubStats gh_out = Inr g" "fetchLeetCodeStats lc_out = Inr l"
    "fetchContributions co_out = Inr c"
    by (rule collectors_return)
  obtain merged t where m: "merge_stats clk g l c pd = Inr (merged, t)"
    and fr: "\<forall>k. k \<noteq> asc ''github_stats'' \<longrightarrow> k \<noteq> asc ''leetcode_stats''
               \<longrightarrow> map_of merged k = map_of pd k"
    using merge_stats_frame by blast
  have run: "main_run clk gh_out lc_out co_out pd = Inr (merged, render_profile clk t merged)"
    by (simp add: main_run_def col m bindE_def)
  have same: "lookup merged k = lookup pd k"
    if "k \<noteq> asc ''github_stats''" "k \<noteq> asc ''leetcode_stats''" for k
    using fr that by (simp add: lookup_def)
  have "render_profile clk t merged =
         generateREADME clk t
           (lookup pd (asc ''profile'')) (lookup pd (asc ''tech_stack''))
           (lookup pd (asc ''current_mission'')) (lookup pd (asc ''current_projects''))
           (lookup pd (asc ''goals'')) (lookup pd (asc ''social''))
           (JObj [(asc ''github'', lookup merged (asc ''github_stats'')),
                  (asc ''leetcode'', lookup merged (asc ''leetcode_stats''))])"
    unfolding render_profile_def
    by (simp add: same asc_def)
  with run fr show ?thesis by blast
qed

text \<open>
  The stored example record keeps its \<^verbatim>\<open>profile\<close> entry through a run whose three requests
  all return a body that is not JSON.
\<close>

theorem merge_touches_only_stats_witness:
  "asc ''profile'' \<noteq> asc ''github_stats'' \<and> asc ''profile'' \<noteq> asc ''leetcode_stats''
   \<and> (\<exists>merged t.
         main_run (frozen_clock morning) BadBody BadBody BadBody stored_profile
           = Inr (merged, render_profile (frozen_clock morning) t merged)
         \<and> map_of merged (asc ''profile'') = map_of stored_profile (asc ''profile''))"
proof -
  have ne: "asc ''profile'' \<noteq> asc ''github_stats''" "asc ''profile'' \<noteq> asc ''leetcode_stats''"
    by (simp_all add: asc_def)
  with merge_touches_only_stats [of "frozen_clock morning" BadBody BadBody BadBody stored_profile]
  show ?thesis by blast
qed

text \<open>
  C3 as stated fails: merging \<^verbatim>\<open>null\<close>, \<^verbatim>\<open>null\<close> and \<open>0\<close> into the empty record gives
  \<^verbatim>\<open>github_stats = {total_contributions: 0}\<close> and the five zero fields of
  \<^verbatim>\<open>leetcode_stats\<close>; neither sub-record has \<^verbatim>\<open>last_updated\<close>, and \<^verbatim>\<open>github_stats\<close> has
  no \<^verbatim>\<open>followers\<close>.
\<close>

theorem unavailable_merge_has_no_stamp:
  "merge_stats (frozen_clock morning) JNull JNull (jint 0) []
     = Inr ([(asc ''github_stats'', JObj [(asc ''total_contributions'', jint 0)]),
             (asc ''leetcode_stats'', zero_leetcode_stats)], 0)
   \<and> get_opt (JObj [(asc ''total_contributions'', jint 0)]) (asc ''last_updated'') = JUndef
   \<and> get_opt (JObj [(asc ''total_contributions'', jint 0)]) (asc ''followers'') = JUndef
   \<and> get_opt zero_leetcode_stats (asc ''last_updated'') = JUndef"
  by (simp add: merge_stats_def ensure_github_stats_def ensure_leetcode_stats_def merge_github_def
      merge_leetcode_def lookup_def bindE_def js_or_def get_opt_def zero_leetcode_stats_def
      jint_def asc_def)

text \<open>
  C3, amended. When the host statistics and the practice statistics are both \<^verbatim>\<open>null\<close>, the
  merge never fails and reads the clock no time. A record without the two sub-records gets
  \<^verbatim>\<open>github_stats = {total_contributions: 0}\<close> and \<^verbatim>\<open>leetcode_stats\<close> with its five fields
  at zero, and no \<^verbatim>\<open>last_updated\<close>. A record that has both keeps \<^verbatim>\<open>leetcode_stats\<close> as it
  is and every field of \<^verbatim>\<open>github_stats\<close>, except that a missing or falsy
  \<^verbatim>\<open>total_contributions\<close> becomes \<open>0\<close>.
\<close>

theorem merge_without_fetch_results:
  "(\<not> truthy (lookup pd (asc ''github_stats'')) \<and> \<not> truthy (lookup pd (asc ''leetcode_stats''))
      \<longrightarrow> (\<exists>merged. merge_stats clk JNull JNull c pd = Inr (merged, 0)
             \<and> lookup merged (asc ''github_stats'') = JObj [(asc ''total_contributions'', jint 0)]
             \<and> lookup merged (asc ''leetcode_stats'') = zero_leetcode_stats))
   \<and> (truthy (lookup pd (asc ''github_stats'')) \<and> truthy (lookup pd (asc ''leetcode_stats''))
      \<longrightarrow> (\<exists>merged. merge_stats clk JNull JNull c pd = Inr (merged, 0)
             \<and> lookup merged (asc ''leetcode_stats'') = lookup pd (asc ''leetcode_stats'')
             \<and> lookup merged (asc ''github_stats'')
                 = set_prop (lookup pd (asc ''github_stats'')) (asc ''total_contributions'')
                     (js_or (get_opt (lookup pd (asc ''github_stats'')) (asc ''total_contributions''))
                        (jint 0))
             \<and> (\<forall>k. k \<noteq> asc ''total_contributions''
                    \<longrightarrow> get_opt (lookup merged (asc ''github_stats'')) k
                        = get_opt (lookup pd (asc ''github_stats'')) k)
             \<and> (truthy (get_opt (lookup pd (asc ''github_stats'')) (asc ''total_contributions''))
                    \<longrightarrow> get_opt (lookup merged (asc ''github_stats'')) (asc ''total_contributions'')
                        = get_opt (lookup pd (asc ''github_stats'')) (asc ''total_contributions''))))"
proof -
  have ne: "asc ''leetcode_stats'' \<noteq> asc ''github_stats''"
    by (simp add: asc_def)
  have missing: "\<exists>merged. merge_stats clk JNull JNull c pd = Inr (merged, 0)
      \<and> lookup merged (asc ''github_stats'') = JObj [(asc ''total_contributions'', jint 0)]
      \<and> lookup merged (asc ''leetcode_stats'') = zero_leetcode_stats"
    if "\<not> truthy (lookup pd (asc ''github_stats''))" "\<not> truthy (lookup pd (asc ''leetcode_stats''))"
    using that ne
    by (simp add: merge_stats_def ensure_github_stats_def ensure_leetcode_stats_def
        merge_github_def merge_leetcode_def lookup_update bindE_def js_or_def)
  have keep_field: "get_opt (set_prop g (asc ''total_contributions'') x) k = get_opt g k"
    if "k \<noteq> asc ''total_contributions''" for g x k
    using that by (cases g) (simp_all add: get_opt_def update_conv')
  have keep_count: "get_opt (set_prop g (asc ''total_contributions'')
        (js_or (get_opt g (asc ''total_contributions'')) (jint 0))) (asc ''total_contributions'')
      = get_opt g (asc ''total_contributions'')"
    if "truthy (get_opt g (asc ''total_contributions''))" for g
    using that by (cases g) (simp_all add: get_opt_def update_conv' js_or_def)
  have present: "\<exists>merged. merge_stats clk JNull JNull c pd = Inr (merged, 0)
      \<and> lookup merged (asc ''leetcode_stats'') = lookup pd (asc ''leetcode_stats'')
      \<and> lookup merged (asc ''github_stats'')
          = set_prop (lookup pd (asc ''github_stats'')) (asc ''total_contributions'')
              (js_or (get_opt (lookup pd (asc ''github_stats'')) (asc ''total_contributions''))
                 (jint 0))"
    if "truthy (lookup pd (asc ''github_stats''))" "truthy (lookup pd (asc ''leetcode_stats''))"
    using that ne
    by (simp add: merge_stats_def ensure_github_stats_def ensure_leetcode_stats_def
        merge_github_def merge_leetcode_def lookup_update bindE_def get_prop_truthy)
  show ?thesis
  proof (intro conjI impI)
    assume "\<not> truthy (lookup pd (asc ''github_stats'')) \<and> \<not> truthy (lookup pd (asc ''leetcode_stats''))"
    then show "\<exists>merged. merge_stats clk JNull JNull c pd = Inr (merged, 0)
      \<and> lookup merged (asc ''github_stats'') = JObj [(asc ''total_contributions'', jint 0)]
      \<and> lookup merged (asc ''leetcode_stats'') = zero_leetcode_stats"
      using missing by blast
  next
    assume "truthy (lookup pd (asc ''github_stats'')) \<and> truthy (lookup pd (asc ''leetcode_stats''))"
    then obtain merged where m: "merge_stats clk JNull JNull c pd = Inr (merged, 0)"
      "lookup merged (asc ''leetcode_stats'') = lookup pd (asc ''leetcode_stats'')"
      "lookup merged (asc ''github_stats'')
          = set_prop (lookup pd (asc ''github_stats'')) (asc ''total_contributions'')
              (js_or (get_opt (lookup pd (asc ''github_stats'')) (asc ''total_contributions''))
                 (jint 0))"
      using present by blast
    show "\<exists>merged. merge_stats clk JNull JNull c pd = Inr (merged, 0)
             \<and> lookup merged (asc ''leetcode_stats'') = lookup pd (asc ''leetcode_stats'')
             \<and> lookup merged (asc ''github_stats'')
                 = set_prop (lookup pd (asc ''github_stats'')) (asc ''total_contributions'')
                     (js_or (get_opt (lookup pd (asc ''github_stats'')) (asc ''total_contributions''))
                        (jint 0))
             \<and> (\<forall>k. k \<noteq> asc ''total_contributions''
                    \<longrightarrow> get_opt (lookup merged (asc ''github_stats'')) k
                        = get_opt (lookup pd (asc ''github_stats'')) k)
             \<and> (truthy (get_opt (lookup pd (asc ''github_stats'')) (asc ''total_contributions''))
                    \<longrightarrow> get_opt (lookup merged (asc ''github_stats'')) (asc ''total_contributions'')
                        = get_opt (lookup pd (asc ''github_stats'')) (asc ''total_contributions''))"
      using m keep_field keep_count by (intro exI [of _ merged]) simp
  qed
qed

text \<open>
  Both cases at concrete records: the empty record, and the stored example record, whose
  8 followers and 310 contributions are still there after the merge.
\<close>

theorem merge_without_fetch_results_witness:
  "\<not> truthy (lookup [] (asc ''github_stats'')) \<and> \<not> truthy (lookup [] (asc ''leetcode_stats''))
   \<and> (\<exists>merged. merge_stats (frozen_clock morning) JNull JNull (jint 0) [] = Inr (merged, 0)
         \<and> lookup merged (asc ''github_stats'') = JObj [(asc ''total_contributions'', jint 0)]
         \<and> lookup merged (asc ''leetcode_stats'') = zero_leetcode_stats)
   \<and> truthy (lookup stored_profile (asc ''github_stats''))
   \<and> truthy (lookup stored_profile (asc ''leetcode_stats''))
   \<and> asc ''followers'' \<noteq> asc ''total_contributions''
   \<and> truthy (get_opt (lookup stored_profile (asc ''github_stats'')) (asc ''total_contributions''))
   \<and> (\<exists>merged. merge_stats (frozen_clock morning) JNull JNull (jint 0) stored_profile = Inr (merged, 0)
         \<and> lookup merged (asc ''leetcode_stats'') = lookup stored_profile (asc ''leetcode_stats'')
         \<and> get_opt (lookup merged (asc ''github_stats'')) (asc ''followers'') = jint 8
         \<and> get_opt (lookup merged (asc ''github_stats'')) (asc ''total_contributions'') = jint 310)"
proof -
  have h1: "\<not> truthy (lookup [] (asc ''github_stats'')) \<and> \<not> truthy (lookup [] (asc ''leetcode_stats''))"
    by (simp add: lookup_def)
  have h2: "truthy (lookup stored_profile (asc ''github_stats''))
      \<and> truthy (lookup stored_profile (asc ''leetcode_stats''))"
    by (simp add: lookup_def stored_profile_def asc_def)
  have h3: "asc ''followers'' \<noteq> asc ''total_contributions''"
    by (simp add: asc_def)
  have v: "get_opt (lookup stored_profile (asc ''github_stats'')) (asc ''followers'') = jint 8"
    "get_opt (lookup stored_profile (asc ''github_stats'')) (asc ''total_contributions'') = jint 310"
    by (simp_all add: lookup_def stored_profile_def get_opt_def asc_def)
  have h4: "truthy (get_opt (lookup stored_profile (asc ''github_stats'')) (asc ''total_contributions''))"
    by (simp add: v jint_def)
  from merge_without_fetch_results [of "[]" "frozen_clock morning" "jint 0"] h1
  have a: "\<exists>merged. merge_stats (frozen_clock morning) JNull JNull (jint 0) [] = Inr (merged, 0)
         \<and> lookup merged (asc ''github_stats'') = JObj [(asc ''total_contributions'', jint 0)]
         \<and> lookup merged (asc ''leetcode_stats'') = zero_leetcode_stats"
    by blast
  from merge_without_fetch_results [of stored_profile "frozen_clock morning" "jint 0"] h2 h3 h4
  have b: "\<exists>merged. merge_stats (frozen_clock morning) JNull JNull (jint 0) stored_profile = Inr (merged, 0)
         \<and> lookup merged (asc ''leetcode_stats'') = lookup stored_profile (asc ''leetcode_stats'')
         \<and> get_opt (lookup merged (asc ''github_stats'')) (asc ''followers'') = jint 8
         \<and> get_opt (lookup merged (asc ''github_stats'')) (asc ''total_contributions'') = jint 310"
    by (metis v)
  from h1 h2 h3 h4 a b show ?thesis by blast
qed

section \<open>The worked scenario\<close>

lemma fetch_host_payload:
  "fetchGitHubStats (JsonBody host_payload) =
     Inr (JObj [(asc ''followers'', jint 8), (asc ''following'', jint 5),
                (asc ''public_repos'', jint 45), (asc ''total_stars'', jint 45)])"
  by (simp add: fetchGitHubStats_def github_try_def host_payload_def bindE_def js_or_def
      jint_def asc_def)

lemma parse_scenario_numbers:
  "parseInt (jint 145) = Inr (jint 145)" "parseInt (jint 63) = Inr (jint 63)"
  "parseInt (jint 75) = Inr (jint 75)" "parseInt (jint 7) = Inr (jint 7)"
  "parseFloat (JNum (Dec 523 (- 1))) = Inr (JNum (Dec 523 (- 1)))"
  by (simp_all add: parseInt_def parseFloat_def jint_def num_to_string_def nat_digits.simps
      strip_zeros_def Let_def asc_def bindE_def parse_int_str_def parse_float_str_def is_ws_def
      is_digit_def hex_val_def to_double_def double_overflow_def double_underflow_def double_normal_def)

lemma fetch_practice_payload:
  "fetchLeetCodeStats (JsonBody practice_payload) =
     Inr (JObj [(asc ''total_solved'', jint 145), (asc ''easy'', jint 63),
                (asc ''medium'', jint 75), (asc ''hard'', jint 7),
                (asc ''acceptance_rate'', JNum (Dec 523 (- 1)))])"
proof -
  have keys: "get_opt practice_payload (asc ''status'') = JStr (asc ''success'')"
    "get_prop practice_payload (asc ''totalSolved'') = Inr (jint 145)"
    "get_prop practice_payload (asc ''easySolved'') = Inr (jint 63)"
    "get_prop practice_payload (asc ''mediumSolved'') = Inr (jint 75)"
    "get_prop practice_payload (asc ''hardSolved'') = Inr (jint 7)"
    "get_prop practice_payload (asc ''acceptanceRate'') = Inr (JNum (Dec 523 (- 1)))"
    "truthy practice_payload"
    by (simp_all add: practice_payload_def get_opt_def asc_def)
  have logged: "\<exists>s. to_string (jint 145) = Inr s"
    by (simp add: jint_def)
  then obtain s where s: "to_string (jint 145) = Inr s" ..
  show ?thesis
    by (simp add: fetchLeetCodeStats_def leetcode_try_def keys parse_scenario_numbers s bindE_def
        js_or_def) (simp add: jint_def)
qed

lemma fetch_count_payload: "fetchContributions (JsonBody count_payload) = Inr (jint 310)"
  by (simp add: fetchContributions_def contributions_try_def count_payload_def bindE_def
      get_opt_def jint_def asc_def)

lemma print_scenario_numbers:
  "to_string (jint 8) = Inr (asc ''8'')" "to_string (jint 5) = Inr (asc ''5'')"
  "to_string (jint 45) = Inr (asc ''45'')" "to_string (jint 145) = Inr (asc ''145'')"
  "to_string (jint 63) = Inr (asc ''63'')" "to_string (jint 75) = Inr (asc ''75'')"
  "to_string (jint 7) = Inr (asc ''7'')"
  by (simp_all add: jint_def num_to_string_def nat_digits.simps strip_zeros_def Let_def asc_def)

lemma print_scenario_rate: "to_fixed2 (Dec 523 (- 1)) = asc ''52.30''"
  by (simp add: to_fixed2_def ge_1e21_def round_cents_def nat_digits.simps asc_def)

lemma scenario_merged:
  "\<exists>merged.
     merge_stats clk
       (JObj [(asc ''followers'', jint 8), (asc ''following'', jint 5),
              (asc ''public_repos'', jint 45), (asc ''total_stars'', jint 45)])
       (JObj [(asc ''total_solved'', jint 145), (asc ''easy'', jint 63),
              (asc ''medium'', jint 75), (asc ''hard'', jint 7),
              (asc ''acceptance_rate'', JNum (Dec 523 (- 1)))])
       (jint 310) pd = Inr (merged, 2)
     \<and> lookup merged (asc ''profile'') = lookup pd (asc ''profile'')
     \<and> (\<exists>old. lookup merged (asc ''github_stats'') =
           JObj (AList.update (asc ''last_updated'') (JStr (iso_date (clk 0)))
             (AList.update (asc ''total_contributions'') (jint 310)
               (AList.update (asc ''total_stars'') (jint 45)
                 (AList.update (asc ''public_repos'') (jint 45)
                   (AList.update (asc ''following'') (jint 5)
                     (AList.update (asc ''followers'') (jint 8) old)))))))
     \<and> (\<exists>old. lookup merged (asc ''leetcode_stats'') =
           JObj (AList.update (asc ''last_updated'') (JStr (iso_date (clk 1)))
             (AList.update (asc ''acceptance_rate'') (JNum (Dec 523 (- 1)))
               (AList.update (asc ''hard'') (jint 7)
                 (AList.update (asc ''medium'') (jint 75)
                   (AList.update (asc ''easy'') (jint 63)
                     (AList.update (asc ''total_solved'') (jint 145) old)))))))"
proof -
  have ne: "asc ''leetcode_stats'' \<noteq> asc ''github_stats''"
    "asc ''profile'' \<noteq> asc ''github_stats''" "asc ''profile'' \<noteq> asc ''leetcode_stats''"
    by (simp_all add: asc_def)
  have pres1: "lookup (ensure_github_stats al) k = lookup al k"
    if "k \<noteq> asc ''github_stats''" for al k
    using that by (simp add: ensure_github_stats_def lookup_update)
  have pres2: "lookup (ensure_leetcode_stats al) k = lookup al k"
    if "k \<noteq> asc ''leetcode_stats''" for al k
    using that by (simp add: ensure_leetcode_stats_def lookup_update)
  show ?thesis
    using ne
    by (simp add: merge_stats_def merge_github_def merge_leetcode_def bindE_def js_or_def
        spread_def lookup_update pres1 pres2 ne [symmetric] jint_def) blast
qed

lemma truthy_jint: "truthy (jint n) = (n \<noteq> 0)"
  by (simp add: jint_def)

lemma concat_replicate_single: "concat (replicate n [x]) = replicate n x"
  by (induction n) simp_all

lemma metrics_header:
  "sectionHeader [55357, 56522] (asc ''LIVE METRICS (Updated Daily)'') =
     Inr ([9484, 9472, 32, 55357, 56522] @ asc '' LIVE METRICS (Updated Daily) ''
          @ replicate 39 9472 @ [9488])"
  by (simp add: sectionHeader_def repeat_def CONTENT_WIDTH_def bindE_def asc_def
      concat_replicate_single)

lemma replicate_counts:
  "replicate 2 x = [x, x]" "replicate 4 x = [x, x, x, x]" "replicate 5 x = [x, x, x, x, x]"
  "replicate 8 x = [x, x, x, x, x, x, x, x]"
  "replicate 11 x = [x, x, x, x, x, x, x, x, x, x, x]"
  "replicate 13 x = [x, x, x, x, x, x, x, x, x, x, x, x, x]"
  by (simp_all add: numeral_eq_Suc)

lemma stats_in_document:
  assumes "generateREADME clk t profile techStack mission projects goals social
      (JObj [(asc ''github'', gh), (asc ''leetcode'', lc)]) = Inr doc"
  shows "\<exists>pre box post. generateStatsSection (clk t) gh lc profile = Inr box
      \<and> doc = pre @ box @ post"
proof -
  have keys: "asc ''leetcode'' \<noteq> asc ''github''"
    by (simp add: asc_def)
  from assms keys obtain profile_s tech_s stats_s rest where
    s: "generateStatsSection (clk t) gh lc profile = Inr stats_s"
    and d: "doc = [96, 96, 96] @ asc ''yml'' @ [10] @ generateMatrixHeader @ profile_s @ tech_s
        @ stats_s @ rest"
    by (auto simp: generateREADME_def bindE_Inr_iff)
  from d have "doc = ([96, 96, 96] @ asc ''yml'' @ [10] @ generateMatrixHeader @ profile_s @ tech_s)
      @ stats_s @ rest"
    by simp
  with s show ?thesis by blast
qed

text \<open>
  C2. With the three payloads of the scenario, for every loaded record whose
  \<^verbatim>\<open>profile.github_stats.total_contributions\<close> can be converted to a string, and every clock
  whose first three readings have a \<^verbatim>\<open>T\<close> after their date part: the run reaches the
  renderer with a merged record in which \<^verbatim>\<open>github_stats.followers = 8\<close>,
  \<^verbatim>\<open>leetcode_stats.total_solved = 145\<close> and \<^verbatim>\<open>github_stats.total_contributions = 310\<close>;
  \<^verbatim>\<open>github_stats.last_updated\<close> is the date part of the first reading and
  \<^verbatim>\<open>leetcode_stats.last_updated\<close> that of the second; the metrics box built from the merged
  record is the text given row by row below, with \<^verbatim>\<open>145\<close> after \<^verbatim>\<open>Total Solved:\<close> and
  \<^verbatim>\<open>52.30%\<close> after \<^verbatim>\<open>Acceptance Rate:\<close>; and every document that the renderer produces
  for the merged record contains that box. The only cell of the box that depends on the
  loaded record is Contributions, which the renderer reads from the \<^verbatim>\<open>profile\<close>
  sub-record.
\<close>

theorem scenario_merge_and_metrics:
  assumes "clk 0 = d0 @ 84 # r0" "84 \<notin> set d0"
    and "clk 1 = d1 @ 84 # r1" "84 \<notin> set d1"
    and "clk 2 = d2 @ 84 # r2" "84 \<notin> set d2"
    and "printable (get_opt (get_opt (lookup pd (asc ''profile'')) (asc ''github_stats''))
           (asc ''total_contributions''))"
  shows "\<exists>merged shown.
     main_run clk (JsonBody host_payload) (JsonBody practice_payload) (JsonBody count_payload) pd
       = Inr (merged, render_profile clk 2 merged)
     \<and> get_opt (lookup merged (asc ''github_stats'')) (asc ''followers'') = JNum (Dec 8 0)
     \<and> get_opt (lookup merged (asc ''leetcode_stats'')) (asc ''total_solved'') = JNum (Dec 145 0)
     \<and> get_opt (lookup merged (asc ''github_stats'')) (asc ''total_contributions'')
         = JNum (Dec 310 0)
     \<and> get_opt (lookup merged (asc ''github_stats'')) (asc ''last_updated'') = JStr d0
     \<and> get_opt (lookup merged (asc ''leetcode_stats'')) (asc ''last_updated'') = JStr d1
     \<and> generateStatsSection (clk 2) (lookup merged (asc ''github_stats''))
           (lookup merged (asc ''leetcode_stats'')) (lookup merged (asc ''profile''))
         = Inr (laid_out
           [[9484, 9472, 32, 55357, 56522] @ asc '' LIVE METRICS (Updated Daily) ''
             @ replicate 39 9472 @ [9488],
            padded_row 9474 [],
            padded_row 9474 (asc ''  '' @ [9581, 9472] @ asc '' GITHUB STATS''),
            padded_row 9474 (asc ''  '' @ [9474] @ asc ''  Followers:        8''),
            padded_row 9474 (asc ''  '' @ [9474] @ asc ''  Following:        5''),
            padded_row 9474 (asc ''  '' @ [9474] @ asc ''  Repositories:     45''),
            padded_row 9474 (asc ''  '' @ [9474] @ asc ''  Contributions:    '' @ shown),
            padded_row 9474 (asc ''  '' @ [9584, 9472] @ asc '' Last Updated: '' @ d2),
            padded_row 9474 [],
            padded_row 9474 (asc ''  '' @ [9581, 9472] @ asc '' LEETCODE STATS''),
            padded_row 9474 (asc ''  '' @ [9474] @ asc ''  Total Solved:     145''),
            padded_row 9474 (asc ''  '' @ [9474] @ asc ''  Easy:             63''),
            padded_row 9474 (asc ''  '' @ [9474] @ asc ''  Medium:           75''),
            padded_row 9474 (asc ''  '' @ [9474] @ asc ''  Hard:             7''),
            padded_row 9474 (asc ''  '' @ [9474] @ asc ''  Acceptance Rate:  52.30%''),
            padded_row 9474 (asc ''  '' @ [9584, 9472] @ asc '' Last Updated: '' @ d2),
            padded_row 9474 [],
            9492 # replicate 73 9472 @ [9496]])
     \<and> (\<forall>doc. render_profile clk 2 merged = Inr doc
           \<longrightarrow> (\<exists>pre post. doc = pre @ laid_out
           [[9484, 9472, 32, 55357, 56522] @ asc '' LIVE METRICS (Updated Daily) ''
             @ replicate 39 9472 @ [9488],
            padded_row 9474 [],
            padded_row 9474 (asc ''  '' @ [9581, 9472] @ asc '' GITHUB STATS''),
            padded_row 9474 (asc ''  '' @ [9474] @ asc ''  Followers:        8''),
            padded_row 9474 (asc ''  '' @ [9474] @ asc ''  Following:        5''),
            padded_row 9474 (asc ''  '' @ [9474] @ asc ''  Repositories:     45''),
            padded_row 9474 (asc ''  '' @ [9474] @ asc ''  Contributions:    '' @ shown),
            padded_row 9474 (asc ''  '' @ [9584, 9472] @ asc '' Last Updated: '' @ d2),
            padded_row 9474 [],
            padded_row 9474 (asc ''  '' @ [9581, 9472] @ asc '' LEETCODE STATS''),
            padded_row 9474 (asc ''  '' @ [9474] @ asc ''  Total Solved:     145''),
            padded_row 9474 (asc ''  '' @ [9474] @ asc ''  Easy:             63''),
            padded_row 9474 (asc ''  '' @ [9474] @ asc ''  Medium:           75''),
            padded_row 9474 (asc ''  '' @ [9474] @ asc ''  Hard:             7''),
            padded_row 9474 (asc ''  '' @ [9474] @ asc ''  Acceptance Rate:  52.30%''),
            padded_row 9474 (asc ''  '' @ [9584, 9472] @ asc '' Last Updated: '' @ d2),
            padded_row 9474 [],
            9492 # replicate 73 9472 @ [9496]] @ post))"
proof -
  obtain merged old1 old2 where m: "merge_stats clk
       (JObj [(asc ''followers'', jint 8), (asc ''following'', jint 5),
              (asc ''public_repos'', jint 45), (asc ''total_stars'', jint 45)])
       (JObj [(asc ''total_solved'', jint 145), (asc ''easy'', jint 63),
              (asc ''medium'', jint 75), (asc ''hard'', jint 7),
              (asc ''acceptance_rate'', JNum (Dec 523 (- 1)))])
       (jint 310) pd = Inr (merged, 2)"
    and pr: "lookup merged (asc ''profile'') = lookup pd (asc ''profile'')"
    and gh: "lookup merged (asc ''github_stats'') =
           JObj (AList.update (asc ''last_updated'') (JStr (iso_date (clk 0)))
             (AList.update (asc ''total_contributions'') (jint 310)
               (AList.update (asc ''total_stars'') (jint 45)
                 (AList.update (asc ''public_repos'') (jint 45)
                   (AList.update (asc ''following'') (jint 5)
                     (AList.update (asc ''followers'') (jint 8) old1))))))"
    and lc: "lookup merged (asc ''leetcode_stats'') =
           JObj (AList.update (asc ''last_updated'') (JStr (iso_date (clk 1)))
             (AList.update (asc ''acceptance_rate'') (JNum (Dec 523 (- 1)))
               (AList.update (asc ''hard'') (jint 7)
                 (AList.update (asc ''medium'') (jint 75)
                   (AList.update (asc ''easy'') (jint 63)
                     (AList.update (asc ''total_solved'') (jint 145) old2))))))"
    using scenario_merged [of clk pd] by blast
  have dates: "iso_date (clk 0) = d0" "iso_date (clk 1) = d1" "iso_date (clk 2) = d2"
    using assms(1-6) by (simp_all add: iso_date_split)
  obtain shown where shown: "to_string (js_or (get_opt (get_opt (lookup pd (asc ''profile''))
      (asc ''github_stats'')) (asc ''total_contributions'')) (jint 0)) = Inr shown"
  proof -
    have "printable (js_or (get_opt (get_opt (lookup pd (asc ''profile''))
      (asc ''github_stats'')) (asc ''total_contributions'')) (jint 0))"
      using assms(7) by (simp add: js_or_def jint_def)
    from printable_to_string(1) [OF this] that show ?thesis by blast
  qed
  have run: "main_run clk (JsonBody host_payload) (JsonBody practice_payload)
      (JsonBody count_payload) pd = Inr (merged, render_profile clk 2 merged)"
    by (simp add: main_run_def fetch_host_payload fetch_practice_payload fetch_count_payload m
        bindE_def)
  have fields:
    "get_prop (lookup merged (asc ''github_stats'')) (asc ''followers'') = Inr (jint 8)"
    "get_prop (lookup merged (asc ''github_stats'')) (asc ''following'') = Inr (jint 5)"
    "get_prop (lookup merged (asc ''github_stats'')) (asc ''public_repos'') = Inr (jint 45)"
    "get_prop (lookup merged (asc ''leetcode_stats'')) (asc ''total_solved'') = Inr (jint 145)"
    "get_prop (lookup merged (asc ''leetcode_stats'')) (asc ''easy'') = Inr (jint 63)"
    "get_prop (lookup merged (asc ''leetcode_stats'')) (asc ''medium'') = Inr (jint 75)"
    "get_prop (lookup merged (asc ''leetcode_stats'')) (asc ''hard'') = Inr (jint 7)"
    "get_prop (lookup merged (asc ''leetcode_stats'')) (asc ''acceptance_rate'')
       = Inr (JNum (Dec 523 (- 1)))"
    unfolding gh lc by (simp_all add: update_conv' asc_def)
  have stored:
    "get_opt (lookup merged (asc ''github_stats'')) (asc ''followers'') = JNum (Dec 8 0)"
    "get_opt (lookup merged (asc ''leetcode_stats'')) (asc ''total_solved'') = JNum (Dec 145 0)"
    "get_opt (lookup merged (asc ''github_stats'')) (asc ''total_contributions'')
       = JNum (Dec 310 0)"
    "get_opt (lookup merged (asc ''github_stats'')) (asc ''last_updated'') = JStr d0"
    "get_opt (lookup merged (asc ''leetcode_stats'')) (asc ''last_updated'') = JStr d1"
    unfolding gh lc dates by (simp_all add: get_opt_def update_conv' jint_def asc_def)
  have tr: "truthy (lookup merged (asc ''github_stats''))"
    "truthy (lookup merged (asc ''leetcode_stats''))" "truthy (JNum (Dec 523 (- 1)))"
    by (simp_all add: gh lc)
  have box: "generateStatsSection (clk 2) (lookup merged (asc ''github_stats''))
           (lookup merged (asc ''leetcode_stats'')) (lookup merged (asc ''profile''))
         = Inr (laid_out
           [[9484, 9472, 32, 55357, 56522] @ asc '' LIVE METRICS (Updated Daily) ''
             @ replicate 39 9472 @ [9488],
            padded_row 9474 [],
            padded_row 9474 (asc ''  '' @ [9581, 9472] @ asc '' GITHUB STATS''),
            padded_row 9474 (asc ''  '' @ [9474] @ asc ''  Followers:        8''),
            padded_row 9474 (asc ''  '' @ [9474] @ asc ''  Following:        5''),
            padded_row 9474 (asc ''  '' @ [9474] @ asc ''  Repositories:     45''),
            padded_row 9474 (asc ''  '' @ [9474] @ asc ''  Contributions:    '' @ shown),
            padded_row 9474 (asc ''  '' @ [9584, 9472] @ asc '' Last Updated: '' @ d2),
            padded_row 9474 [],
            padded_row 9474 (asc ''  '' @ [9581, 9472] @ asc '' LEETCODE STATS''),
            padded_row 9474 (asc ''  '' @ [9474] @ asc ''  Total Solved:     145''),
            padded_row 9474 (asc ''  '' @ [9474] @ asc ''  Easy:             63''),
            padded_row 9474 (asc ''  '' @ [9474] @ asc ''  Medium:           75''),
            padded_row 9474 (asc ''  '' @ [9474] @ asc ''  Hard:             7''),
            padded_row 9474 (asc ''  '' @ [9474] @ asc ''  Acceptance Rate:  52.30%''),
            padded_row 9474 (asc ''  '' @ [9584, 9472] @ asc '' Last Updated: '' @ d2),
            padded_row 9474 [],
            9492 # replicate 73 9472 @ [9496]])"
    using shown
    by (simp add: generateStatsSection_def Let_def render_section_def stat_field_row_def
        statRow_def acceptance_text_def js_or_def tr fields truthy_jint metrics_header pr
        print_scenario_numbers print_scenario_rate bindE_def dates section_text_laid_out
        createRow_padded sectionFooter_def CONTENT_WIDTH_def)
      (simp add: asc_def padEnd_def replicate_counts)
  have inside: "\<exists>pre post. doc = pre @ laid_out
           [[9484, 9472, 32, 55357, 56522] @ asc '' LIVE METRICS (Updated Daily) ''
             @ replicate 39 9472 @ [9488],
            padded_row 9474 [],
            padded_row 9474 (asc ''  '' @ [9581, 9472] @ asc '' GITHUB STATS''),
            padded_row 9474 (asc ''  '' @ [9474] @ asc ''  Followers:        8''),
            padded_row 9474 (asc ''  '' @ [9474] @ asc ''  Following:        5''),
            padded_row 9474 (asc ''  '' @ [9474] @ asc ''  Repositories:     45''),
            padded_row 9474 (asc ''  '' @ [9474] @ asc ''  Contributions:    '' @ shown),
            padded_row 9474 (asc ''  '' @ [9584, 9472] @ asc '' Last Updated: '' @ d2),
            padded_row 9474 [],
            padded_row 9474 (asc ''  '' @ [9581, 9472] @ asc '' LEETCODE STATS''),
            padded_row 9474 (asc ''  '' @ [9474] @ asc ''  Total Solved:     145''),
            padded_row 9474 (asc ''  '' @ [9474] @ asc ''  Easy:             63''),
            padded_row 9474 (asc ''  '' @ [9474] @ asc ''  Medium:           75''),
            padded_row 9474 (asc ''  '' @ [9474] @ asc ''  Hard:             7''),
            padded_row 9474 (asc ''  '' @ [9474] @ asc ''  Acceptance Rate:  52.30%''),
            padded_row 9474 (asc ''  '' @ [9584, 9472] @ asc '' Last Updated: '' @ d2),
            padded_row 9474 [],
            9492 # replicate 73 9472 @ [9496]] @ post"
    if "render_profile clk 2 merged = Inr doc" for doc
    using stats_in_document [OF that [unfolded render_profile_def]] box by auto
  from run stored box inside show ?thesis by blast
qed

text \<open>
  The scenario from the empty record, under a clock frozen at
  \<^verbatim>\<open>2026-11-01T06:30:00.000Z\<close>: both stamps are \<^verbatim>\<open>2026-11-01\<close>.
\<close>

theorem scenario_merge_and_metrics_witness:
  "frozen_clock morning 0 = asc ''2026-11-01'' @ 84 # asc ''06:30:00.000Z''
   \<and> 84 \<notin> set (asc ''2026-11-01'')
   \<and> printable (get_opt (get_opt (lookup stored_profile (asc ''profile'')) (asc ''github_stats''))
        (asc ''total_contributions''))
   \<and> (\<exists>merged.
         main_run (frozen_clock morning) (JsonBody host_payload) (JsonBody practice_payload)
           (JsonBody count_payload) stored_profile
           = Inr (merged, render_profile (frozen_clock morning) 2 merged)
         \<and> get_opt (lookup merged (asc ''leetcode_stats'')) (asc ''total_solved'')
             = JNum (Dec 145 0)
         \<and> get_opt (lookup merged (asc ''github_stats'')) (asc ''last_updated'')
             = JStr (asc ''2026-11-01''))"
proof -
  have c: "frozen_clock morning n = asc ''2026-11-01'' @ 84 # asc ''06:30:00.000Z''" for n
    by (simp add: frozen_clock_def morning_def asc_def)
  have d: "84 \<notin> set (asc ''2026-11-01'')"
    by (simp add: asc_def)
  have p: "printable (get_opt (get_opt (lookup stored_profile (asc ''profile''))
      (asc ''github_stats'')) (asc ''total_contributions''))"
    by (simp add: lookup_def stored_profile_def get_opt_def asc_def)
  from scenario_merge_and_metrics
    [where clk = "frozen_clock morning", OF c [of 0] d c [of 1] d c [of 2] d p] c [of 0] d p
  show ?thesis by blast
qed

section \<open>Decimal digits read back\<close>

lemma is_digit_offset: "k < 10 \<Longrightarrow> is_digit (48 + k)"
  by (simp add: is_digit_def)

lemma nat_digits_digits: "nat_digits n \<noteq> [] \<and> list_all is_digit (nat_digits n)"
proof (induction n rule: nat_digits.induct)
  case (1 n)
  show ?case
  proof (cases "n < 10")
    case True
    then show ?thesis
      by (subst nat_digits.simps, subst (2) nat_digits.simps) (simp add: is_digit_offset)
  next
    case False
    have "n mod 10 < 10" by simp
    then have "is_digit (48 + n mod 10)" by (rule is_digit_offset)
    with False 1 show ?thesis
      by (subst nat_digits.simps, subst (2) nat_digits.simps) simp
  qed
qed















section \<open>The values that the collectors return\<close>

lemma not_printable_to_string:
  "\<not> printable v \<Longrightarrow> to_string v = Inl TypeError"
  "(\<exists>x \<in> set xs. \<not> printable x) \<Longrightarrow> join_vals sep xs = Inl TypeError"
proof (induction v and sep xs rule: to_string_join_vals.induct)
  case (9 sep x xs)
  show ?case
  proof (cases "printable x")
    case False
    then have "x \<noteq> JUndef" "x \<noteq> JNull" by auto
    with False 9(1) show ?thesis by (simp add: bindE_def)
  next
    case True
    then have "\<exists>s. (if x = JUndef \<or> x = JNull then Inr [] else to_string x) = Inr s"
      using printable_to_string(1) [of x] by simp
    then obtain s where s: "(if x = JUndef \<or> x = JNull then Inr [] else to_string x) = Inr s"
      by blast
    from True 9(3) have rest: "\<exists>y \<in> set xs. \<not> printable y" by auto
    then have ne: "xs \<noteq> []" by auto
    from 9(2) [OF ne rest] s ne show ?thesis
      by (simp add: bindE_def)
  qed
qed simp_all




















section \<open>The acceptance-rate cell\<close>

lemma fixed2_shape:
  assumes "ip \<noteq> []" "list_all is_digit ip" "is_digit d1" "is_digit d2"
    and "sign = [] \<or> sign = [45]"
  shows "is_fixed2_percent (sign @ ip @ [46, d1, d2, 37])"
proof -
  have "hd ip \<noteq> 45"
    using assms(1,2) by (cases ip) (simp_all add: is_digit_def)
  then have "last (rev ip) \<noteq> 45"
    using assms(1) by (simp add: last_rev)
  moreover have "rev ip \<noteq> []" "list_all is_digit (rev ip)"
    using assms(1,2) by (simp_all add: list_all_iff)
  ultimately have "int_part_rev (rev ip @ rev sign)"
    using assms(5) by (auto simp: int_part_rev_def Let_def)
  with assms(3,4) show ?thesis
    by (simp add: is_fixed2_percent_def)
qed

lemma to_fixed2_shape:
  assumes "\<not> ge_1e21 (nat \<bar>m\<bar>) e"
  shows "is_fixed2_percent (to_fixed2 (Dec m e) @ [37])"
proof -
  define ds where "ds = nat_digits (round_cents (nat \<bar>m\<bar>) e)"
  define padded where "padded = replicate (3 - length ds) 48 @ ds"
  define sign :: jstring where "sign = (if m < 0 then asc ''-'' else [])"
  have ds: "ds \<noteq> []" "list_all is_digit ds"
    using nat_digits_digits by (simp_all add: ds_def)
  have len: "3 \<le> length padded"
    by (simp add: padded_def)
  have all: "list_all is_digit padded"
    using ds by (auto simp: padded_def list_all_iff is_digit_def)
  obtain d1 d2 where tail: "drop (length padded - 2) padded = [d1, d2]"
  proof -
    have "length (drop (length padded - 2) padded) = 2" using len by simp
    then show ?thesis
      using that by (cases "drop (length padded - 2) padded" rule: list.exhaust)
        (auto simp: length_Suc_conv)
  qed
  have "set (drop (length padded - 2) padded) \<subseteq> set padded" by (rule set_drop_subset)
  with all tail have d: "is_digit d1" "is_digit d2" by (auto simp: list_all_iff)
  have ip: "take (length padded - 2) padded \<noteq> []"
    using len by auto
  have "set (take (length padded - 2) padded) \<subseteq> set padded" by (rule set_take_subset)
  with all have ipd: "list_all is_digit (take (length padded - 2) padded)"
    by (auto simp: list_all_iff)
  have sg: "sign = [] \<or> sign = [45]"
    by (simp add: sign_def asc_def)
  have e1: "to_fixed2 (Dec m e)
      = sign @ take (length padded - 2) padded @ asc ''.'' @ drop (length padded - 2) padded"
    using assms by (simp add: to_fixed2_def Let_def ds_def padded_def sign_def)
  have e2: "asc ''.'' = [46]"
    by (simp add: asc_def)
  have "to_fixed2 (Dec m e) @ [37] = sign @ take (length padded - 2) padded @ [46, d1, d2, 37]"
    unfolding e1 e2 tail by simp
  then show ?thesis
    using fixed2_shape [OF ip ipd d sg] by simp
qed


text \<open>
  C9 as stated fails: for an acceptance rate of \<open>10^21\<close> the cell reads \<^verbatim>\<open>1e+21%\<close>, since
  \<^verbatim>\<open>toFixed\<close> hands numbers from \<open>10^21\<close> on to the plain conversion to a string.
\<close>

theorem acceptance_rate_exponent_notation:
  "acceptance_text (JObj [(asc ''acceptance_rate'', JNum (Dec 1 21))]) = Inr (asc ''1e+21%'')
   \<and> \<not> is_fixed2_percent (asc ''1e+21%'')"
  by (simp add: acceptance_text_def bindE_def js_or_def to_fixed2_def ge_1e21_def
      num_to_string_def nat_digits.simps strip_zeros_def Let_def is_fixed2_percent_def asc_def)

lemma acceptance_text_cases:
  assumes "truthy lc"
  shows "acceptance_text lc =
     bindE (toFixed2 (js_or (get_opt lc (asc ''acceptance_rate'')) (jint 0)))
       (\<lambda>s. Inr (s @ [37]))"
  using assms by (simp add: acceptance_text_def get_prop_truthy bindE_def asc_def)

lemma zero_fixed2: "to_fixed2 (Dec 0 0) = asc ''0.00''"
  by (simp add: to_fixed2_def ge_1e21_def round_cents_def nat_digits.simps asc_def)

text \<open>
  C9, amended. When the stored acceptance rate is not infinite and below \<open>10^21\<close> in
  magnitude, the text of the acceptance-rate cell, whenever there is one, is an optional
  minus sign, at least one digit, a decimal point, exactly two digits and a percent sign.
  There is one when the rate is missing or falsy (\<^verbatim>\<open>0.00%\<close>) and when it is such a number.
  The second copy of the script prints the same text, followed by 43 spaces.
\<close>

theorem acceptance_rate_two_decimals:
  "(truthy lc \<longrightarrow> \<not> huge (get_opt lc (asc ''acceptance_rate''))
      \<longrightarrow> acceptance_text lc = Inr s \<longrightarrow> is_fixed2_percent s)
   \<and> (truthy lc \<longrightarrow> \<not> truthy (get_opt lc (asc ''acceptance_rate''))
      \<longrightarrow> acceptance_text lc = Inr (asc ''0.00%''))
   \<and> (truthy lc \<longrightarrow> get_opt lc (asc ''acceptance_rate'') = JNum (Dec m e) \<longrightarrow> m \<noteq> 0
      \<longrightarrow> \<not> ge_1e21 (nat \<bar>m\<bar>) e
      \<longrightarrow> acceptance_text lc = Inr (to_fixed2 (Dec m e) @ [37])
          \<and> is_fixed2_percent (to_fixed2 (Dec m e) @ [37]))
   \<and> acceptance_cell_padded lc = bindE (acceptance_text lc) (\<lambda>s. Inr (s @ replicate 43 32))"
proof -
  have zero: "acceptance_text lc = Inr (asc ''0.00%'')"
    if "truthy lc" "\<not> truthy (get_opt lc (asc ''acceptance_rate''))"
    using that
    by (simp add: acceptance_text_cases js_or_def jint_def zero_fixed2 bindE_def asc_def)
  have number: "acceptance_text lc = Inr (to_fixed2 (Dec m e) @ [37])
      \<and> is_fixed2_percent (to_fixed2 (Dec m e) @ [37])"
    if "truthy lc" "get_opt lc (asc ''acceptance_rate'') = JNum (Dec m e)" "m \<noteq> 0"
      "\<not> ge_1e21 (nat \<bar>m\<bar>) e" for m e
    using that to_fixed2_shape [of m e]
    by (simp add: acceptance_text_cases js_or_def bindE_def)
  have zero_ok: "is_fixed2_percent (asc ''0.00%'')"
    by (simp add: is_fixed2_percent_def int_part_rev_def is_digit_def asc_def)
  have shape: "is_fixed2_percent s"
    if lc: "truthy lc" and nh: "\<not> huge (get_opt lc (asc ''acceptance_rate''))"
      and r: "acceptance_text lc = Inr s"
  proof (cases "truthy (get_opt lc (asc ''acceptance_rate''))")
    case False
    with zero [OF lc] r zero_ok show ?thesis by simp
  next
    case True
    show ?thesis
    proof (cases "get_opt lc (asc ''acceptance_rate'')")
      case (JNum x)
      show ?thesis
      proof (cases x)
        case NaN
        with JNum True show ?thesis by simp
      next
        case (Infinity neg)
        with JNum nh show ?thesis by simp
      next
        case (Dec k j)
        with JNum True nh have "k \<noteq> 0" "\<not> ge_1e21 (nat \<bar>k\<bar>) j" by simp_all
        with number [OF lc, of k j] JNum Dec r show ?thesis by simp
      qed
    qed (use True r lc in \<open>simp_all add: acceptance_text_cases js_or_def bindE_def\<close>)
  qed
  have padded: "acceptance_cell_padded lc
      = bindE (acceptance_text lc) (\<lambda>s. Inr (s @ replicate 43 32))"
    by (simp add: acceptance_cell_padded_def acceptance_text_def bindE_def padEnd_def asc_def
        split: sum.splits)
  from zero number shape padded show ?thesis by blast
qed

text \<open>
  An acceptance rate of 52.3 gives \<^verbatim>\<open>52.30%\<close>; the all-zero default gives \<^verbatim>\<open>0.00%\<close>.
\<close>

theorem acceptance_rate_two_decimals_witness:
  "truthy (JObj [(asc ''acceptance_rate'', JNum (Dec 523 (- 1)))])
   \<and> get_opt (JObj [(asc ''acceptance_rate'', JNum (Dec 523 (- 1)))]) (asc ''acceptance_rate'')
       = JNum (Dec 523 (- 1))
   \<and> \<not> huge (JNum (Dec 523 (- 1))) \<and> (523 :: int) \<noteq> 0
   \<and> \<not> ge_1e21 (nat \<bar>523\<bar>) (- 1)
   \<and> acceptance_text (JObj [(asc ''acceptance_rate'', JNum (Dec 523 (- 1)))])
       = Inr (asc ''52.30%'')
   \<and> is_fixed2_percent (asc ''52.30%'')
   \<and> truthy zero_leetcode_stats \<and> \<not> truthy (get_opt zero_leetcode_stats (asc ''acceptance_rate''))
   \<and> acceptance_text zero_leetcode_stats = Inr (asc ''0.00%'')"
proof -
  have g: "get_opt (JObj [(asc ''acceptance_rate'', JNum (Dec 523 (- 1)))]) (asc ''acceptance_rate'')
       = JNum (Dec 523 (- 1))"
    by (simp add: get_opt_def)
  have b: "\<not> ge_1e21 (nat \<bar>523\<bar>) (- 1)"
    by (simp add: ge_1e21_def)
  have t: "to_fixed2 (Dec 523 (- 1)) @ [37] = asc ''52.30%''"
    by (simp add: print_scenario_rate asc_def)
  have z: "truthy zero_leetcode_stats"
    "\<not> truthy (get_opt zero_leetcode_stats (asc ''acceptance_rate''))"
    by (simp_all add: zero_leetcode_stats_def get_opt_def jint_def asc_def)
  from acceptance_rate_two_decimals
    [of "JObj [(asc ''acceptance_rate'', JNum (Dec 523 (- 1)))]" _ 523 "- 1"] g b
  have "acceptance_text (JObj [(asc ''acceptance_rate'', JNum (Dec 523 (- 1)))])
       = Inr (asc ''52.30%'') \<and> is_fixed2_percent (asc ''52.30%'')"
    by (simp add: t)
  moreover from acceptance_rate_two_decimals [of zero_leetcode_stats] z
  have "acceptance_text zero_leetcode_stats = Inr (asc ''0.00%'')"
    by blast
  ultimately show ?thesis using g b z by simp
qed

section \<open>Overlong rows\<close>


text \<open>
  C6 at a project whose description has 60 characters. \<^verbatim>\<open>generateProjectsSection\<close> of
  \<^verbatim>\<open>scripts/update-readme.js\<close> prints all 60 on a line of 80 code units, five more than a
  line of the box has; the second copy of the script cuts the description to 55 and pads
  it to 57.
\<close>

theorem long_description_rows:
  "project_rows 0 long_project
     = Inr [createRow (asc ''  1. Blem''),
            createRow (asc ''     Description: '' @ replicate 60 120),
            createRow (asc ''     Tech Stack:  Next.js''),
            createRow (asc ''     Status:      Active''),
            createRow []]
   \<and> length (createRow (asc ''     Description: '' @ replicate 60 120)) = 80
   \<and> length (createRow []) = 75
   \<and> project_rows_padded 0 long_project
     = Inr [[9474] @ asc ''  1. '' @ padEnd 67 (asc ''Blem'') @ asc ''  '' @ [9474],
            [9474] @ asc ''     Description: '' @ replicate 55 120 @ replicate 2 32 @ asc ''  ''
              @ [9474],
            [9474] @ asc ''     Tech Stack:  '' @ padEnd 57 (asc ''Next.js'') @ asc ''  '' @ [9474],
            [9474] @ asc ''     Status:      '' @ padEnd 57 (asc ''Active'') @ asc ''  '' @ [9474],
            [9474] @ replicate 75 32 @ [9474]]"
  by (simp add: project_rows_def project_rows_padded_def long_project_def bindE_def
      nat_digits.simps createRow_def padEnd_def slice0_def CONTENT_WIDTH_def asc_def)

section \<open>Records that the renderer prints\<close>

lemma mapE_ok:
  "(\<forall>x \<in> set xs. \<exists>y. f x = Inr y) \<Longrightarrow> \<exists>ys. mapE f xs = Inr ys"
  by (induction xs) (auto simp: bindE_def)

lemma render_section_ok:
  "(\<forall>r \<in> set rows. \<exists>s. r = Inr s) \<Longrightarrow> \<exists>s. render_section rows = Inr s"
  using mapE_ok [of rows "\<lambda>r. r"] by (auto simp: render_section_def bindE_def)

lemma sectionHeader_ok:
  "length emoji + length title + 4 \<le> 73 \<Longrightarrow> \<exists>s. sectionHeader emoji title = Inr s"
  by (simp add: sectionHeader_def Let_def repeat_def CONTENT_WIDTH_def bindE_def asc_def)

lemma labelRow_ok: "printable v \<Longrightarrow> \<exists>s. labelRow label v = Inr s"
  using printable_to_string(1) [of v] by (auto simp: labelRow_def bindE_def)

lemma statRow_ok: "printable v \<Longrightarrow> \<exists>s. statRow label v = Inr s"
  using printable_to_string(1) [of v] by (auto simp: statRow_def bindE_def)

lemma get_prop_present: "present v \<Longrightarrow> get_prop v k = Inr (get_opt v k)"
  by (cases v) (simp_all add: get_opt_def present_def)

lemma printable_or: "printable v \<Longrightarrow> printable d \<Longrightarrow> printable (js_or v d)"
  by (simp add: js_or_def)

lemma field_row_ok:
  "present p \<Longrightarrow> printable (get_opt p k) \<Longrightarrow> \<exists>s. field_row label p k = Inr s"
  using labelRow_ok by (simp add: field_row_def get_prop_present bindE_def)

lemma profile_section_ok:
  assumes "profile_ok p"
  shows "\<exists>s. generateProfileSection p = Inr s"
proof -
  from assms have p: "present p" and f: "printable (get_opt p (asc ''name''))"
    "printable (get_opt p (asc ''title''))" "printable (get_opt p (asc ''location''))"
    "printable (get_opt p (asc ''age''))" "printable (get_opt p (asc ''timezone''))"
    "printable (get_opt p (asc ''tagline''))"
    by (simp_all add: profile_ok_def fields_printable_def)
  have tag: "\<exists>s. bindE (get_prop p (asc ''tagline'')) (\<lambda>tagline.
        bindE (to_string tagline) (\<lambda>s. Inr (createRow (asc ''  Tagline: '' @ [34] @ s @ [34]))))
      = Inr s"
    using printable_to_string(1) [OF f(6)] p by (auto simp: get_prop_present bindE_def)
  show ?thesis
    unfolding generateProfileSection_def
    using tag
    by (intro render_section_ok) (simp add: field_row_ok [OF p] f labelRow_ok sectionHeader_ok length_asc)
qed


lemma formatArray_ok: "printable_list v \<Longrightarrow> \<exists>s. formatArray v = Inr s"
  using printable_to_string(2)
  by (cases v) (simp_all add: printable_list_def list_all_iff)

lemma tech_row_ok:
  assumes "printable_list (get_opt ts k)"
  shows "\<exists>s. tech_row label ts k = Inr s"
proof -
  from assms have "present ts"
    by (cases ts) (simp_all add: present_def get_opt_def printable_list_def)
  moreover obtain joined where "formatArray (get_opt ts k) = Inr joined"
    using formatArray_ok [OF assms] by blast
  ultimately show ?thesis
    using labelRow_ok [of "JStr joined"] by (simp add: tech_row_def get_prop_present bindE_def)
qed

lemma tech_section_ok:
  assumes "tech_ok ts"
  shows "\<exists>s. generateTechSection ts = Inr s"
  unfolding generateTechSection_def
  using assms
  by (intro render_section_ok) (simp add: tech_ok_def tech_row_ok sectionHeader_ok length_asc)

lemma stat_field_row_ok:
  "truthy obj \<Longrightarrow> printable (get_opt obj k) \<Longrightarrow> \<exists>s. stat_field_row label obj k = Inr s"
  using statRow_ok [of "js_or (get_opt obj k) (jint 0)"]
  by (simp add: stat_field_row_def get_prop_truthy bindE_def printable_or jint_def)

lemma acceptance_row_ok:
  assumes "truthy lc" "rate_ok (get_opt lc (asc ''acceptance_rate''))"
  shows "\<exists>s. bindE (acceptance_text lc) (\<lambda>s. statRow label (JStr s)) = Inr s"
proof -
  have "\<exists>x. js_or (get_opt lc (asc ''acceptance_rate'')) (jint 0) = JNum x"
    using assms(2)
    by (cases "get_opt lc (asc ''acceptance_rate'')") (simp_all add: rate_ok_def js_or_def jint_def)
  then obtain x where "js_or (get_opt lc (asc ''acceptance_rate'')) (jint 0) = JNum x" ..
  with assms(1) have "acceptance_text lc = Inr (to_fixed2 x @ [37])"
    by (simp add: acceptance_text_cases bindE_def)
  then show ?thesis
    using statRow_ok [of "JStr (to_fixed2 x @ [37])"] by (simp add: bindE_def)
qed

lemma stats_section_ok:
  assumes "stats_ok gh lc"
    and "printable (get_opt (get_opt p (asc ''github_stats'')) (asc ''total_contributions''))"
  shows "\<exists>s. generateStatsSection stamp gh lc p = Inr s"
proof -
  define g where "g = js_or gh default_github"
  define l where "l = js_or lc zero_leetcode_stats"
  have g: "truthy g" "printable (get_opt g (asc ''followers''))"
    "printable (get_opt g (asc ''following''))" "printable (get_opt g (asc ''public_repos''))"
    using assms(1)
    by (auto simp: g_def js_or_def stats_ok_def fields_printable_def default_github_def
        get_opt_def jint_def)
  have l: "truthy l" "printable (get_opt l (asc ''total_solved''))"
    "printable (get_opt l (asc ''easy''))" "printable (get_opt l (asc ''medium''))"
    "printable (get_opt l (asc ''hard''))" "rate_ok (get_opt l (asc ''acceptance_rate''))"
    using assms(1)
    by (auto simp: l_def js_or_def stats_ok_def fields_printable_def zero_leetcode_stats_def
        get_opt_def jint_def rate_ok_def asc_def)
  have c: "printable (js_or (get_opt (get_opt p (asc ''github_stats''))
      (asc ''total_contributions'')) (jint 0))"
    using assms(2) by (simp add: printable_or jint_def)
  show ?thesis
    unfolding generateStatsSection_def Let_def g_def [symmetric] l_def [symmetric]
    using acceptance_row_ok [OF l(1) l(6)]
    by (intro render_section_ok)
      (simp add: stat_field_row_ok g l statRow_ok [OF c] sectionHeader_ok length_asc)
qed

lemma bullet_rows_ok: "printable_list v \<Longrightarrow> \<exists>s. bullet_rows prefix v = Inr s"
proof (cases v)
  case (JArr xs)
  assume "printable_list v"
  with JArr have "\<forall>x \<in> set xs. \<exists>y. bindE (to_string x) (\<lambda>s. Inr (createRow (prefix @ s))) = Inr y"
    using printable_to_string(1) by (fastforce simp: printable_list_def list_all_iff bindE_def)
  from mapE_ok [OF this] JArr show ?thesis
    by (auto simp: bindE_def)
qed (simp_all add: printable_list_def)

lemma optional_rows_ok:
  "optional_list v \<Longrightarrow> \<exists>s. bullet_rows prefix (js_or v (JArr [])) = Inr s"
  using bullet_rows_ok [of v prefix]
  by (auto simp: optional_list_def js_or_def bindE_def)

lemma mission_row_ok:
  "truthy m \<Longrightarrow> printable (get_opt m k) \<Longrightarrow> \<exists>s. mission_row label m k = Inr s"
  using labelRow_ok [of "js_or (get_opt m k) (JStr [])"]
  by (simp add: mission_row_def get_prop_truthy bindE_def printable_or)

lemma mission_section_ok:
  assumes "mission_ok mission"
  shows "\<exists>s. generateMissionSection mission = Inr s"
proof -
  define m where "m = js_or mission default_mission"
  have m: "truthy m" "printable (get_opt m (asc ''status''))"
    "printable (get_opt m (asc ''mode''))" "printable (get_opt m (asc ''next_level''))"
    "optional_list (get_opt m (asc ''weapons''))" "optional_list (get_opt m (asc ''weaknesses''))"
    using assms
    by (auto simp: m_def js_or_def mission_ok_def fields_printable_def default_mission_def
        get_opt_def optional_list_def printable_list_def asc_def)
  obtain weaponRows where w: "bullet_rows (asc ''    '' @ [9889, 32])
      (js_or (get_opt m (asc ''weapons'')) (JArr [])) = Inr weaponRows"
    using optional_rows_ok [OF m(5)] by blast
  obtain weaknessRows where k: "bullet_rows (asc ''    '' @ [9888, 65039] @ asc ''  '')
      (js_or (get_opt m (asc ''weaknesses'')) (JArr [])) = Inr weaknessRows"
    using optional_rows_ok [OF m(6)] by blast
  have "\<exists>s. render_section
             [sectionHeader [55357, 56960] (asc ''CURRENT MISSION STATUS''),
              Inr (createRow []),
              mission_row (asc ''Status:'') m (asc ''status''),
              mission_row (asc ''Mode:'') m (asc ''mode''),
              Inr (createRow []),
              Inr (createRow (asc ''  Weapons Arsenal:'')),
              Inr weaponRows,
              Inr (createRow []),
              Inr (createRow (asc ''  Known Weaknesses:'')),
              Inr weaknessRows,
              Inr (createRow []),
              mission_row (asc ''Next Level:'') m (asc ''next_level''),
              Inr (createRow []),
              Inr sectionFooter] = Inr s"
    by (intro render_section_ok) (simp add: mission_row_ok m sectionHeader_ok length_asc)
  with w k show ?thesis
    unfolding generateMissionSection_def Let_def m_def [symmetric]
    by (simp add: get_prop_truthy [OF m(1)] bindE_def)
qed

lemma project_rows_ok:
  assumes "project_ok proj"
  shows "\<exists>rows. project_rows idx proj = Inr rows"
proof -
  from assms have p: "present proj" and f: "printable (get_opt proj (asc ''name''))"
    "printable (get_opt proj (asc ''description''))" "printable (get_opt proj (asc ''status''))"
    and t: "printable_list (get_opt proj (asc ''tech''))"
    by (simp_all add: project_ok_def fields_printable_def)
  obtain name_s description_s status_s tech_s where
    "to_string (get_opt proj (asc ''name'')) = Inr name_s"
    "to_string (get_opt proj (asc ''description'')) = Inr description_s"
    "to_string (get_opt proj (asc ''status'')) = Inr status_s"
    "formatArray (get_opt proj (asc ''tech'')) = Inr tech_s"
    using printable_to_string(1) [OF f(1)] printable_to_string(1) [OF f(2)]
      printable_to_string(1) [OF f(3)] formatArray_ok [OF t] by blast
  then show ?thesis
    by (simp add: project_rows_def get_prop_present [OF p] bindE_def)
qed

lemma projects_loop_ok:
  "list_all project_ok projs \<Longrightarrow> \<exists>rows. projects_loop idx projs = Inr rows"
proof (induction projs arbitrary: idx)
  case Nil
  then show ?case by simp
next
  case (Cons proj rest)
  then obtain rows more where "project_rows idx proj = Inr rows"
    "projects_loop (idx + 1) rest = Inr more"
    using project_rows_ok [of proj idx] by fastforce
  then show ?case by (simp add: bindE_def)
qed

lemma projects_section_ok:
  assumes "projects_ok projects"
  shows "\<exists>s. generateProjectsSection projects = Inr s"
proof -
  from assms obtain projs where v: "object_values projects = Inr projs"
    and a: "list_all project_ok projs"
    by (auto simp: projects_ok_def split: sum.splits)
  obtain rows where r: "projects_loop 0 projs = Inr rows"
    using projects_loop_ok [OF a] by blast
  have "\<exists>s. render_section
         [sectionHeader [55357, 56513] (asc ''CURRENT PROJECTS''),
          Inr (createRow []),
          Inr (join_strs [10] rows),
          Inr sectionFooter] = Inr s"
    by (intro render_section_ok) (simp add: sectionHeader_ok length_asc)
  then show ?thesis
    by (simp add: generateProjectsSection_def v r bindE_def)
qed

lemma goals_section_ok:
  assumes "goals_ok goals"
  shows "\<exists>s. generateGoalsSection goals = Inr s"
proof -
  from assms have s: "printable_list (get_opt goals (asc ''short_term''))"
    and l: "printable_list (get_opt goals (asc ''long_term''))"
    by (simp_all add: goals_ok_def)
  from s have p: "present goals"
    by (cases goals) (simp_all add: present_def get_opt_def printable_list_def)
  obtain shortTermRows longTermRows where
    rows: "bullet_rows (asc ''    '' @ [10003, 32]) (get_opt goals (asc ''short_term''))
        = Inr shortTermRows"
      "bullet_rows (asc ''    '' @ [9733, 32]) (get_opt goals (asc ''long_term''))
        = Inr longTermRows"
    using bullet_rows_ok [OF s] bullet_rows_ok [OF l] by blast
  have "\<exists>s. render_section
         [sectionHeader [55356, 57263] (asc ''GOALS & ASPIRATIONS''),
          Inr (createRow []),
          Inr (createRow (asc ''  Short Term:'')),
          Inr shortTermRows,
          Inr (createRow []),
          Inr (createRow (asc ''  Long Term:'')),
          Inr longTermRows,
          Inr (createRow []),
          Inr sectionFooter] = Inr s"
    by (intro render_section_ok) (simp add: sectionHeader_ok length_asc)
  with rows show ?thesis
    by (simp add: generateGoalsSection_def get_prop_present [OF p] bindE_def)
qed

lemma social_row_ok:
  "truthy s \<Longrightarrow> printable (get_opt s k) \<Longrightarrow> \<exists>r. social_row label s k = Inr r"
  using labelRow_ok [of "js_or (get_opt s k) (JStr (asc ''N/A''))"]
  by (simp add: social_row_def get_prop_truthy bindE_def printable_or)

lemma social_section_ok:
  assumes "social_ok social"
  shows "\<exists>s. generateSocialSection social = Inr s"
proof -
  define s where "s = js_or social (JObj [])"
  have s: "truthy s" "printable (get_opt s (asc ''github''))"
    "printable (get_opt s (asc ''linkedin''))" "printable (get_opt s (asc ''twitter''))"
    "printable (get_opt s (asc ''email''))" "printable (get_opt s (asc ''portfolio''))"
    using assms
    by (auto simp: s_def js_or_def social_ok_def fields_printable_def get_opt_def)
  show ?thesis
    unfolding generateSocialSection_def Let_def s_def [symmetric]
    by (intro render_section_ok) (simp add: social_row_ok s sectionHeader_ok length_asc)
qed

section \<open>What a printed record has to be\<close>

lemma to_string_printable: "to_string v = Inr s \<Longrightarrow> printable v"
  using not_printable_to_string(1) [of v] by auto

lemma join_vals_printable: "join_vals sep xs = Inr s \<Longrightarrow> list_all printable xs"
  using not_printable_to_string(2) [of xs sep] by (auto simp: list_all_iff)

lemma get_prop_Inr: "get_prop p k = Inr v \<Longrightarrow> present p \<and> v = get_opt p k"
  by (cases p) (auto simp: present_def get_opt_def)

lemma printable_or_inv: "printable (js_or v d) \<Longrightarrow> printable v"
  by (cases v) (auto simp: js_or_def split: if_splits)

lemma mapE_Inr: "mapE f xs = Inr ys \<Longrightarrow> list_all2 (\<lambda>x y. f x = Inr y) xs ys"
  by (induction xs arbitrary: ys) (auto simp: bindE_Inr_iff)

lemma join_lines:
  "rows \<noteq> [] \<Longrightarrow> join_strs [10] rows @ [10] = concat (map (\<lambda>r. r @ [10]) rows)"
  by (induction rows rule: join_strs.induct [where ?a0.0 = "[10]"]) simp_all

lemma body_rows:
  "list_all (\<lambda>l. \<exists>rows. l = join_strs [10] rows \<and> list_all row_form rows) ls \<Longrightarrow>
     \<exists>rows. concat (map (\<lambda>l. l @ [10]) ls) = concat (map (\<lambda>r. r @ [10]) rows)
       \<and> list_all row_form rows"
proof (induction ls)
  case Nil
  have "concat (map (\<lambda>l. l @ [10]) []) = concat (map (\<lambda>r. r @ [10]) ([] :: jstring list))
      \<and> list_all row_form []"
    by simp
  then show ?case by blast
next
  case (Cons l ls)
  then obtain here rest where h: "l = join_strs [10] here" "list_all row_form here"
    and r: "concat (map (\<lambda>l. l @ [10]) ls) = concat (map (\<lambda>r. r @ [10]) rest)"
      "list_all row_form rest"
    by auto
  show ?case
  proof (cases "here = []")
    case True
    with h r have "concat (map (\<lambda>l. l @ [10]) (l # ls))
        = concat (map (\<lambda>r. r @ [10]) ([] # rest)) \<and> list_all row_form ([] # rest)"
      by (simp add: row_form_def)
    then show ?thesis by blast
  next
    case False
    with h r join_lines [OF False] have "concat (map (\<lambda>l. l @ [10]) (l # ls))
        = concat (map (\<lambda>r. r @ [10]) (here @ rest)) \<and> list_all row_form (here @ rest)"
      by simp
    then show ?thesis by blast
  qed
qed

lemma row_block: "row_form x \<Longrightarrow> \<exists>rows. x = join_strs [10] rows \<and> list_all row_form rows"
proof -
  assume "row_form x"
  then have "x = join_strs [10] [x] \<and> list_all row_form [x]" by simp
  then show ?thesis by blast
qed

lemma render_section_inv:
  assumes "render_section rs = Inr s"
  shows "list_all (\<lambda>r. \<exists>x. r = Inr x) rs"
    and "list_all (\<lambda>r. \<forall>x. r = Inr x \<longrightarrow>
        (\<exists>rows. x = join_strs [10] rows \<and> list_all row_form rows)) rs \<Longrightarrow>
      \<exists>rows. s = laid_out rows \<and> list_all row_form rows"
proof -
  from assms obtain ls where m: "mapE (\<lambda>r. r) rs = Inr ls" and s: "s = laid_out ls"
    by (auto simp: render_section_def bindE_Inr_iff section_text_laid_out)
  from mapE_Inr [OF m] have rs: "rs = map Inr ls"
    by (induction rs ls rule: list_all2_induct) simp_all
  then show "list_all (\<lambda>r. \<exists>x. r = Inr x) rs"
    by (simp add: list_all_iff)
  assume "list_all (\<lambda>r. \<forall>x. r = Inr x \<longrightarrow>
        (\<exists>rows. x = join_strs [10] rows \<and> list_all row_form rows)) rs"
  with rs have "list_all (\<lambda>l. \<exists>rows. l = join_strs [10] rows \<and> list_all row_form rows) ls"
    by (simp add: list_all_iff)
  from body_rows [OF this] s show "\<exists>rows. s = laid_out rows \<and> list_all row_form rows"
    by (auto simp: laid_out_def)
qed

lemma row_form_rows:
  "row_form (createRow c)" "row_form (doubleRow c)" "row_form sectionFooter"
  "row_form doubleHeader" "row_form doubleFooter" "row_form []"
  by (simp_all add: row_form_def rule_row_def content_row_def createRow_def doubleRow_def
      sectionFooter_def doubleHeader_def doubleFooter_def padEnd_def CONTENT_WIDTH_def)

lemma sectionHeader_Inr: "sectionHeader e t = Inr x \<Longrightarrow> row_form x"
  by (auto simp: sectionHeader_def Let_def repeat_def bindE_Inr_iff row_form_def rule_row_def
      CONTENT_WIDTH_def split: if_splits)

lemma labelRow_Inr: "labelRow l v = Inr x \<Longrightarrow> printable v \<and> row_form x"
  by (auto simp: labelRow_def bindE_Inr_iff row_form_rows dest: to_string_printable)

lemma statRow_Inr: "statRow l v = Inr x \<Longrightarrow> printable v \<and> row_form x"
  by (auto simp: statRow_def bindE_Inr_iff row_form_rows dest: to_string_printable)

lemma field_row_Inr:
  "field_row l p k = Inr x \<Longrightarrow> present p \<and> printable (get_opt p k) \<and> row_form x"
  by (auto simp: field_row_def bindE_Inr_iff dest!: get_prop_Inr labelRow_Inr)

lemma quoted_row_Inr:
  "bindE (get_prop p k) (\<lambda>v. bindE (to_string v) (\<lambda>s. Inr (createRow (f s)))) = Inr x \<Longrightarrow>
     present p \<and> printable (get_opt p k) \<and> row_form x"
  by (auto simp: bindE_Inr_iff row_form_rows dest!: get_prop_Inr to_string_printable)

lemma profile_section_Inr:
  assumes "generateProfileSection p = Inr s"
  shows "present p \<and> fields_printable p [asc ''name'', asc ''title'', asc ''location'',
      asc ''age'', asc ''timezone'', asc ''tagline'']
    \<and> (\<exists>rows. s = laid_out rows \<and> list_all row_form rows)"
proof -
  note inv = render_section_inv [OF assms [unfolded generateProfileSection_def]]
  from inv(1) have "present p \<and> fields_printable p [asc ''name'', asc ''title'',
      asc ''location'', asc ''age'', asc ''timezone'', asc ''tagline'']"
    by (auto simp: fields_printable_def dest!: field_row_Inr quoted_row_Inr)
  moreover have "\<exists>rows. s = laid_out rows \<and> list_all row_form rows"
    by (rule inv(2))
      (auto simp: row_form_rows intro!: row_block
        dest!: field_row_Inr quoted_row_Inr sectionHeader_Inr labelRow_Inr)
  ultimately show ?thesis by blast
qed

lemma formatArray_Inr: "formatArray v = Inr s \<Longrightarrow> printable_list v"
  by (cases v) (auto simp: printable_list_def dest: join_vals_printable)

lemma tech_row_Inr:
  "tech_row l ts k = Inr x \<Longrightarrow> printable_list (get_opt ts k) \<and> row_form x"
  by (auto simp: tech_row_def bindE_Inr_iff dest!: get_prop_Inr formatArray_Inr labelRow_Inr)

lemma tech_section_Inr:
  assumes "generateTechSection ts = Inr s"
  shows "tech_ok ts \<and> (\<exists>rows. s = laid_out rows \<and> list_all row_form rows)"
proof -
  note inv = render_section_inv [OF assms [unfolded generateTechSection_def]]
  from inv(1) have "tech_ok ts"
    by (auto simp: tech_ok_def dest!: tech_row_Inr)
  moreover have "\<exists>rows. s = laid_out rows \<and> list_all row_form rows"
    by (rule inv(2))
      (auto simp: row_form_rows intro!: row_block dest!: tech_row_Inr sectionHeader_Inr)
  ultimately show ?thesis by blast
qed

lemma stat_field_row_Inr:
  "stat_field_row l obj k = Inr x \<Longrightarrow> printable (get_opt obj k) \<and> row_form x"
  by (auto simp: stat_field_row_def bindE_Inr_iff
      dest!: get_prop_Inr statRow_Inr printable_or_inv)

lemma toFixed2_Inr: "toFixed2 (js_or v (jint 0)) = Inr s \<Longrightarrow> rate_ok v"
  by (cases v) (auto simp: rate_ok_def js_or_def jint_def split: if_splits)

lemma acceptance_row_Inr:
  "bindE (acceptance_text lc) (\<lambda>s. statRow l (JStr s)) = Inr x \<Longrightarrow>
     rate_ok (get_opt lc (asc ''acceptance_rate'')) \<and> row_form x"
  by (auto simp: acceptance_text_def bindE_Inr_iff
      dest!: get_prop_Inr statRow_Inr toFixed2_Inr)

lemma stats_section_Inr:
  assumes "generateStatsSection stamp gh lc p = Inr s"
  shows "stats_ok gh lc
    \<and> printable (get_opt (get_opt p (asc ''github_stats'')) (asc ''total_contributions''))
    \<and> (\<exists>rows. s = laid_out rows \<and> list_all row_form rows)"
proof -
  note inv = render_section_inv [OF assms [unfolded generateStatsSection_def Let_def]]
  have g: "js_or gh default_github = gh" if "truthy gh"
    using that by (simp add: js_or_def)
  have l: "js_or lc zero_leetcode_stats = lc" if "truthy lc"
    using that by (simp add: js_or_def)
  from inv(1) have "stats_ok gh lc
    \<and> printable (get_opt (get_opt p (asc ''github_stats'')) (asc ''total_contributions''))"
    by (auto simp: stats_ok_def fields_printable_def g l
        dest!: stat_field_row_Inr statRow_Inr acceptance_row_Inr printable_or_inv)
  moreover have "\<exists>rows. s = laid_out rows \<and> list_all row_form rows"
    by (rule inv(2))
      (auto simp: row_form_rows intro!: row_block
        dest!: stat_field_row_Inr statRow_Inr acceptance_row_Inr sectionHeader_Inr)
  ultimately show ?thesis by blast
qed

lemma bullet_rows_Inr:
  assumes "bullet_rows prefix v = Inr x"
  shows "printable_list v \<and> (\<exists>rows. x = join_strs [10] rows \<and> list_all row_form rows)"
proof (cases v)
  case (JArr xs)
  with assms obtain rows where
    m: "mapE (\<lambda>x. bindE (to_string x) (\<lambda>s. Inr (createRow (prefix @ s)))) xs = Inr rows"
    and x: "x = join_strs [10] rows"
    by (auto simp: bindE_Inr_iff)
  from mapE_Inr [OF m] have "list_all printable xs \<and> list_all row_form rows"
    by (induction xs rows rule: list_all2_induct)
      (auto simp: bindE_Inr_iff row_form_rows dest: to_string_printable)
  with JArr x show ?thesis
    by (auto simp: printable_list_def)
qed (use assms in simp_all)

lemma optional_rows_Inr:
  assumes "bullet_rows prefix (js_or v (JArr [])) = Inr x"
  shows "optional_list v \<and> (\<exists>rows. x = join_strs [10] rows \<and> list_all row_form rows)"
  using bullet_rows_Inr [OF assms] by (auto simp: optional_list_def js_or_def split: if_splits)

lemma mission_row_Inr:
  "mission_row l m k = Inr x \<Longrightarrow> printable (get_opt m k) \<and> row_form x"
  by (auto simp: mission_row_def bindE_Inr_iff
      dest!: get_prop_Inr labelRow_Inr printable_or_inv)

lemma mission_section_Inr:
  assumes "generateMissionSection mission = Inr s"
  shows "mission_ok mission \<and> (\<exists>rows. s = laid_out rows \<and> list_all row_form rows)"
proof -
  define m where "m = js_or mission default_mission"
  from assms obtain weaponRows weaknessRows where
    w: "bullet_rows (asc ''    '' @ [9889, 32]) (js_or (get_opt m (asc ''weapons'')) (JArr []))
      = Inr weaponRows"
    and k: "bullet_rows (asc ''    '' @ [9888, 65039] @ asc ''  '')
        (js_or (get_opt m (asc ''weaknesses'')) (JArr [])) = Inr weaknessRows"
    and r: "render_section
             [sectionHeader [55357, 56960] (asc ''CURRENT MISSION STATUS''),
              Inr (createRow []),
              mission_row (asc ''Status:'') m (asc ''status''),
              mission_row (asc ''Mode:'') m (asc ''mode''),
              Inr (createRow []),
              Inr (createRow (asc ''  Weapons Arsenal:'')),
              Inr weaponRows,
              Inr (createRow []),
              Inr (createRow (asc ''  Known Weaknesses:'')),
              Inr weaknessRows,
              Inr (createRow []),
              mission_row (asc ''Next Level:'') m (asc ''next_level''),
              Inr (createRow []),
              Inr sectionFooter] = Inr s"
    unfolding generateMissionSection_def Let_def m_def [symmetric]
    by (auto simp: bindE_Inr_iff dest!: get_prop_Inr)
  note inv = render_section_inv [OF r]
  have same: "m = mission" if "truthy mission"
    using that by (simp add: m_def js_or_def)
  from inv(1) optional_rows_Inr [OF w] optional_rows_Inr [OF k] have "mission_ok mission"
    by (auto simp: mission_ok_def fields_printable_def same dest!: mission_row_Inr)
  moreover have "\<exists>rows. s = laid_out rows \<and> list_all row_form rows"
    using optional_rows_Inr [OF w] optional_rows_Inr [OF k]
    by (intro inv(2))
      (auto simp: row_form_rows intro!: row_block dest!: mission_row_Inr sectionHeader_Inr)
  ultimately show ?thesis by blast
qed

lemma project_rows_Inr:
  assumes "project_rows idx proj = Inr rows"
  shows "project_ok proj \<and> list_all row_form rows"
  using assms
  by (auto simp: project_rows_def bindE_Inr_iff project_ok_def fields_printable_def
      row_form_rows dest!: get_prop_Inr to_string_printable formatArray_Inr)

lemma projects_loop_Inr:
  "projects_loop idx projs = Inr rows \<Longrightarrow> list_all project_ok projs \<and> list_all row_form rows"
proof (induction projs arbitrary: idx rows)
  case Nil
  then show ?case by simp
next
  case (Cons proj rest)
  from Cons.prems obtain here more where h: "project_rows idx proj = Inr here"
    and m: "projects_loop (idx + 1) rest = Inr more" and r: "rows = here @ more"
    by (auto simp: bindE_Inr_iff)
  from project_rows_Inr [OF h] Cons.IH [OF m] r show ?case
    by simp
qed

lemma projects_section_Inr:
  assumes "generateProjectsSection projects = Inr s"
  shows "projects_ok projects \<and> (\<exists>rows. s = laid_out rows \<and> list_all row_form rows)"
proof -
  from assms obtain projs rows where v: "object_values projects = Inr projs"
    and l: "projects_loop 0 projs = Inr rows"
    and r: "render_section
         [sectionHeader [55357, 56513] (asc ''CURRENT PROJECTS''),
          Inr (createRow []),
          Inr (join_strs [10] rows),
          Inr sectionFooter] = Inr s"
    by (auto simp: generateProjectsSection_def bindE_Inr_iff)
  note inv = render_section_inv [OF r]
  from projects_loop_Inr [OF l] v have "projects_ok projects"
    by (simp add: projects_ok_def)
  moreover have "\<exists>rows. s = laid_out rows \<and> list_all row_form rows"
    using projects_loop_Inr [OF l]
    by (intro inv(2)) (auto simp: row_form_rows intro: row_block dest!: sectionHeader_Inr)
  ultimately show ?thesis by blast
qed

lemma goals_section_Inr:
  assumes "generateGoalsSection goals = Inr s"
  shows "goals_ok goals \<and> (\<exists>rows. s = laid_out rows \<and> list_all row_form rows)"
proof -
  from assms obtain shortTermRows longTermRows where
    st: "bullet_rows (asc ''    '' @ [10003, 32]) (get_opt goals (asc ''short_term''))
      = Inr shortTermRows"
    and lt: "bullet_rows (asc ''    '' @ [9733, 32]) (get_opt goals (asc ''long_term''))
      = Inr longTermRows"
    and r: "render_section
         [sectionHeader [55356, 57263] (asc ''GOALS & ASPIRATIONS''),
          Inr (createRow []),
          Inr (createRow (asc ''  Short Term:'')),
          Inr shortTermRows,
          Inr (createRow []),
          Inr (createRow (asc ''  Long Term:'')),
          Inr longTermRows,
          Inr (createRow []),
          Inr sectionFooter] = Inr s"
    by (auto simp: generateGoalsSection_def bindE_Inr_iff dest!: get_prop_Inr)
  note inv = render_section_inv [OF r]
  from bullet_rows_Inr [OF st] bullet_rows_Inr [OF lt] have "goals_ok goals"
    by (simp add: goals_ok_def)
  moreover have "\<exists>rows. s = laid_out rows \<and> list_all row_form rows"
    using bullet_rows_Inr [OF st] bullet_rows_Inr [OF lt]
    by (intro inv(2)) (auto simp: row_form_rows intro!: row_block dest!: sectionHeader_Inr)
  ultimately show ?thesis by blast
qed

lemma social_row_Inr:
  "social_row l obj k = Inr x \<Longrightarrow> printable (get_opt obj k) \<and> row_form x"
  by (auto simp: social_row_def bindE_Inr_iff
      dest!: get_prop_Inr labelRow_Inr printable_or_inv)

lemma social_section_Inr:
  assumes "generateSocialSection social = Inr s"
  shows "social_ok social \<and> (\<exists>rows. s = laid_out rows \<and> list_all row_form rows)"
proof -
  note inv = render_section_inv [OF assms [unfolded generateSocialSection_def Let_def]]
  have same: "js_or social (JObj []) = social" if "truthy social"
    using that by (simp add: js_or_def)
  from inv(1) have "social_ok social"
    by (auto simp: social_ok_def fields_printable_def same dest!: social_row_Inr)
  moreover have "\<exists>rows. s = laid_out rows \<and> list_all row_form rows"
    by (rule inv(2))
      (auto simp: row_form_rows intro!: row_block dest!: social_row_Inr sectionHeader_Inr)
  ultimately show ?thesis by blast
qed




lemma stats_argument: "asc ''leetcode'' \<noteq> asc ''github''"
  by (simp add: asc_def)

lemma renderable_renders:
  assumes "renderable pd"
  shows "\<exists>doc. render_profile clk t pd = Inr doc"
proof -
  from assms have ok: "profile_ok (lookup pd (asc ''profile''))"
    "tech_ok (lookup pd (asc ''tech_stack''))"
    "stats_ok (lookup pd (asc ''github_stats'')) (lookup pd (asc ''leetcode_stats''))"
    "mission_ok (lookup pd (asc ''current_mission''))"
    "projects_ok (lookup pd (asc ''current_projects''))"
    "goals_ok (lookup pd (asc ''goals''))"
    "social_ok (lookup pd (asc ''social''))"
    by (simp_all add: renderable_def)
  from ok(1) have c: "printable (get_opt (get_opt (lookup pd (asc ''profile''))
      (asc ''github_stats'')) (asc ''total_contributions''))"
    by (simp add: profile_ok_def)
  obtain profile_s tech_s stats_s mission_s projects_s goals_s social_s where
    "generateProfileSection (lookup pd (asc ''profile'')) = Inr profile_s"
    "generateTechSection (lookup pd (asc ''tech_stack'')) = Inr tech_s"
    "generateStatsSection (clk t) (lookup pd (asc ''github_stats''))
       (lookup pd (asc ''leetcode_stats'')) (lookup pd (asc ''profile'')) = Inr stats_s"
    "generateMissionSection (lookup pd (asc ''current_mission'')) = Inr mission_s"
    "generateProjectsSection (lookup pd (asc ''current_projects'')) = Inr projects_s"
    "generateGoalsSection (lookup pd (asc ''goals'')) = Inr goals_s"
    "generateSocialSection (lookup pd (asc ''social'')) = Inr social_s"
    using profile_section_ok [OF ok(1)] tech_section_ok [OF ok(2)]
      stats_section_ok [OF ok(3) c, of "clk t"] mission_section_ok [OF ok(4)]
      projects_section_ok [OF ok(5)] goals_section_ok [OF ok(6)] social_section_ok [OF ok(7)]
    by blast
  then show ?thesis
    by (simp add: render_profile_def generateREADME_def stats_argument bindE_def)
qed

lemma render_sections:
  assumes "render_profile clk t pd = Inr doc"
  obtains profile_s tech_s stats_s mission_s projects_s goals_s social_s where
    "generateProfileSection (lookup pd (asc ''profile'')) = Inr profile_s"
    "generateTechSection (lookup pd (asc ''tech_stack'')) = Inr tech_s"
    "generateStatsSection (clk t) (lookup pd (asc ''github_stats''))
       (lookup pd (asc ''leetcode_stats'')) (lookup pd (asc ''profile'')) = Inr stats_s"
    "generateMissionSection (lookup pd (asc ''current_mission'')) = Inr mission_s"
    "generateProjectsSection (lookup pd (asc ''current_projects'')) = Inr projects_s"
    "generateGoalsSection (lookup pd (asc ''goals'')) = Inr goals_s"
    "generateSocialSection (lookup pd (asc ''social'')) = Inr social_s"
    "doc = [96, 96, 96] @ asc ''yml'' @ [10] @ generateMatrixHeader @ profile_s @ tech_s
       @ stats_s @ mission_s @ projects_s @ goals_s @ social_s @ generateFooter (clk (t + 1))
       @ [10] @ [96, 96, 96]"
  using assms
  by (auto simp: render_profile_def generateREADME_def stats_argument bindE_Inr_iff)

lemma renders_renderable:
  assumes "render_profile clk t pd = Inr doc"
  shows "renderable pd"
proof -
  from assms obtain profile_s tech_s stats_s mission_s projects_s goals_s social_s where
    "generateProfileSection (lookup pd (asc ''profile'')) = Inr profile_s"
    "generateTechSection (lookup pd (asc ''tech_stack'')) = Inr tech_s"
    "generateStatsSection (clk t) (lookup pd (asc ''github_stats''))
       (lookup pd (asc ''leetcode_stats'')) (lookup pd (asc ''profile'')) = Inr stats_s"
    "generateMissionSection (lookup pd (asc ''current_mission'')) = Inr mission_s"
    "generateProjectsSection (lookup pd (asc ''current_projects'')) = Inr projects_s"
    "generateGoalsSection (lookup pd (asc ''goals'')) = Inr goals_s"
    "generateSocialSection (lookup pd (asc ''social'')) = Inr social_s"
    by (rule render_sections)
  from profile_section_Inr [OF this(1)] tech_section_Inr [OF this(2)]
    stats_section_Inr [OF this(3)] mission_section_Inr [OF this(4)]
    projects_section_Inr [OF this(5)] goals_section_Inr [OF this(6)]
    social_section_Inr [OF this(7)]
  show ?thesis
    by (simp add: renderable_def profile_ok_def)
qed

text \<open>
  C4 as stated fails: for a record without \<^verbatim>\<open>tech_stack\<close> the renderer throws a
  \<^verbatim>\<open>TypeError\<close> in \<^verbatim>\<open>generateTechSection\<close>, and a profile without \<^verbatim>\<open>name\<close> gets the row
  \<^verbatim>\<open>Name: undefined\<close>, which is none of the designated defaults.
\<close>

theorem missing_tech_stack_fails:
  "render_profile (frozen_clock morning) 0 profile_without_tech = Inl TypeError
   \<and> generateTechSection (lookup profile_without_tech (asc ''tech_stack'')) = Inl TypeError
   \<and> field_row (asc ''Name:'') (lookup profile_without_tech (asc ''profile'')) (asc ''name'')
       = Inr (createRow (asc ''  '' @ padEnd 18 (asc ''Name:'') @ asc ''undefined''))"
proof -
  have p: "profile_ok (lookup profile_without_tech (asc ''profile''))"
    by (simp add: profile_ok_def present_def fields_printable_def lookup_def
        profile_without_tech_def get_opt_def asc_def)
  obtain profile_s where
    s: "generateProfileSection (lookup profile_without_tech (asc ''profile'')) = Inr profile_s"
    using profile_section_ok [OF p] by blast
  have u: "lookup profile_without_tech (asc ''tech_stack'') = JUndef"
    by (simp add: lookup_def profile_without_tech_def asc_def)
  have t: "generateTechSection JUndef = Inl TypeError"
    by (simp add: generateTechSection_def render_section_def tech_row_def sectionHeader_def
        repeat_def CONTENT_WIDTH_def bindE_def asc_def)
  have n: "field_row (asc ''Name:'') (lookup profile_without_tech (asc ''profile'')) (asc ''name'')
       = Inr (createRow (asc ''  '' @ padEnd 18 (asc ''Name:'') @ asc ''undefined''))"
    by (simp add: field_row_def labelRow_def lookup_def profile_without_tech_def bindE_def
        asc_def)
  show ?thesis
    using n by (simp add: render_profile_def generateREADME_def s u t bindE_def)
qed

text \<open>
  C4, amended. The renderer produces a document exactly for the records that are
  \<open>renderable\<close>: the \<^verbatim>\<open>profile\<close> sub-record is there, \<^verbatim>\<open>tech_stack\<close> has its five lists,
  \<^verbatim>\<open>goals\<close> its two, every project is there and has a \<^verbatim>\<open>tech\<close> list, a stored acceptance
  rate is a number, stored \<^verbatim>\<open>weapons\<close> and \<^verbatim>\<open>weaknesses\<close> are lists, and every value that is
  printed can be converted to a string. For such a record a missing or falsy statistic is
  printed as \<open>0\<close>, a missing mission text as the empty string, a missing social link as
  \<^verbatim>\<open>N/A\<close>, a missing statistics or mission sub-record is replaced by its default, and a
  missing field of \<^verbatim>\<open>profile\<close> is printed as the text \<^verbatim>\<open>undefined\<close>. Without the
  \<^verbatim>\<open>profile\<close>, \<^verbatim>\<open>tech_stack\<close>, \<^verbatim>\<open>current_projects\<close> or \<^verbatim>\<open>goals\<close> sub-record the section
  throws a \<^verbatim>\<open>TypeError\<close>, and so does the row of a missing \<^verbatim>\<open>tech_stack\<close> list.
\<close>

theorem renderable_record_renders:
  "((\<exists>doc. render_profile clk t pd = Inr doc) \<longleftrightarrow> renderable pd)
   \<and> (truthy gh \<longrightarrow> \<not> truthy (get_opt gh key)
        \<longrightarrow> stat_field_row label gh key = statRow label (jint 0))
   \<and> (truthy m \<longrightarrow> \<not> truthy (get_opt m key)
        \<longrightarrow> mission_row label m key = labelRow label (JStr []))
   \<and> (truthy s \<longrightarrow> \<not> truthy (get_opt s key)
        \<longrightarrow> social_row label s key = labelRow label (JStr (asc ''N/A'')))
   \<and> (present p \<longrightarrow> get_opt p key = JUndef
        \<longrightarrow> field_row label p key
            = Inr (padded_row 9474 (asc ''  '' @ label @ replicate (18 - length label) 32
                @ asc ''undefined'')))
   \<and> js_or JUndef default_github = default_github
   \<and> js_or JUndef zero_leetcode_stats = zero_leetcode_stats
   \<and> js_or JUndef default_mission = default_mission
   \<and> generateProfileSection JUndef = Inl TypeError
   \<and> generateTechSection JUndef = Inl TypeError
   \<and> generateProjectsSection JUndef = Inl TypeError
   \<and> generateGoalsSection JUndef = Inl TypeError
   \<and> (get_opt ts key = JUndef \<longrightarrow> tech_row label ts key = Inl TypeError)"
proof -
  have hdr: "\<exists>s. sectionHeader [55357, 56420] (asc ''PROFILE MATRIX'') = Inr s"
    "\<exists>s. sectionHeader [55357, 57056, 65039, 32] (asc ''TECH ARSENAL'') = Inr s"
    by (simp_all add: sectionHeader_ok length_asc)
  have fails: "generateProfileSection JUndef = Inl TypeError"
    "generateTechSection JUndef = Inl TypeError"
    "generateProjectsSection JUndef = Inl TypeError"
    "generateGoalsSection JUndef = Inl TypeError"
    using hdr
    by (auto simp: generateProfileSection_def generateTechSection_def
        generateProjectsSection_def generateGoalsSection_def render_section_def field_row_def
        tech_row_def bindE_def)
  have defaults: "stat_field_row label gh key = statRow label (jint 0)"
    if "truthy gh" "\<not> truthy (get_opt gh key)" for gh
    using that by (simp add: stat_field_row_def get_prop_truthy bindE_def js_or_def)
  have blank: "mission_row label m key = labelRow label (JStr [])"
    if "truthy m" "\<not> truthy (get_opt m key)"
    using that by (simp add: mission_row_def get_prop_truthy bindE_def js_or_def)
  have na: "social_row label s key = labelRow label (JStr (asc ''N/A''))"
    if "truthy s" "\<not> truthy (get_opt s key)"
    using that by (simp add: social_row_def get_prop_truthy bindE_def js_or_def)
  have undef: "field_row label p key
      = Inr (padded_row 9474 (asc ''  '' @ label @ replicate (18 - length label) 32
          @ asc ''undefined''))"
    if "present p" "get_opt p key = JUndef"
    using that
    by (simp add: field_row_def get_prop_present labelRow_def createRow_padded padEnd_def
        bindE_def)
  have nolist: "tech_row label ts key = Inl TypeError" if "get_opt ts key = JUndef"
    using that by (cases ts) (simp_all add: tech_row_def get_opt_def bindE_def)
  have iff: "(\<exists>doc. render_profile clk t pd = Inr doc) \<longleftrightarrow> renderable pd"
    using renderable_renders [of pd clk t] renders_renderable [of clk t pd] by blast
  show ?thesis
    using iff fails defaults blank na undef nolist
    by (simp add: js_or_def)
qed

text \<open>
  A record with a profile, its lists and nothing else is rendered, and the same record
  without \<^verbatim>\<open>tech_stack\<close> is not; the rows of a missing e-mail address, mission mode,
  follower count, profile name and tools list.
\<close>

theorem renderable_record_renders_witness:
  "renderable bare_profile
   \<and> (\<exists>doc. render_profile (frozen_clock morning) 0 bare_profile = Inr doc)
   \<and> \<not> renderable profile_without_tech
   \<and> (\<forall>doc. render_profile (frozen_clock morning) 0 profile_without_tech \<noteq> Inr doc)
   \<and> social_row (asc ''Email:'') (JObj []) (asc ''email'')
       = labelRow (asc ''Email:'') (JStr (asc ''N/A''))
   \<and> mission_row (asc ''Mode:'') (JObj []) (asc ''mode'') = labelRow (asc ''Mode:'') (JStr [])
   \<and> stat_field_row (asc ''Followers:'') (JObj []) (asc ''followers'')
       = statRow (asc ''Followers:'') (jint 0)
   \<and> field_row (asc ''Name:'') (lookup bare_profile (asc ''profile'')) (asc ''name'')
       = Inr (padded_row 9474 (asc ''  Name:             undefined''))
   \<and> tech_row (asc ''Tools:'') (JObj []) (asc ''tools'') = Inl TypeError"
proof -
  have r: "renderable bare_profile"
    by (simp add: renderable_def profile_ok_def tech_ok_def stats_ok_def mission_ok_def
        projects_ok_def goals_ok_def social_ok_def present_def fields_printable_def
        printable_list_def lookup_def bare_profile_def get_opt_def asc_def)
  have n: "\<not> renderable profile_without_tech"
    by (simp add: renderable_def tech_ok_def printable_list_def lookup_def
        profile_without_tech_def get_opt_def asc_def)
  have e: "truthy (JObj [])" "\<not> truthy (get_opt (JObj []) k)" "get_opt (JObj []) k = JUndef"
    for k
    by (simp_all add: get_opt_def)
  have p: "present (lookup bare_profile (asc ''profile''))"
    "get_opt (lookup bare_profile (asc ''profile'')) (asc ''name'') = JUndef"
    by (simp_all add: present_def lookup_def bare_profile_def get_opt_def asc_def)
  have l: "asc ''  '' @ asc ''Name:'' @ replicate (18 - length (asc ''Name:'')) 32
      @ asc ''undefined'' = asc ''  Name:             undefined''"
    by (simp add: asc_def replicate_counts)
  from renderable_record_renders [where clk = "frozen_clock morning" and t = 0
      and pd = bare_profile, THEN conjunct1] r
  have doc: "\<exists>doc. render_profile (frozen_clock morning) 0 bare_profile = Inr doc"
    by simp
  from renderable_record_renders [where clk = "frozen_clock morning" and t = 0
      and pd = profile_without_tech, THEN conjunct1] n
  have nodoc: "\<forall>doc. render_profile (frozen_clock morning) 0 profile_without_tech \<noteq> Inr doc"
    by simp
  from renderable_record_renders [where s = "JObj []" and key = "asc ''email''"
      and label = "asc ''Email:''", THEN conjunct2, THEN conjunct2, THEN conjunct2,
      THEN conjunct1] e
  have so: "social_row (asc ''Email:'') (JObj []) (asc ''email'')
       = labelRow (asc ''Email:'') (JStr (asc ''N/A''))"
    by simp
  from renderable_record_renders [where m = "JObj []" and key = "asc ''mode''"
      and label = "asc ''Mode:''", THEN conjunct2, THEN conjunct2, THEN conjunct1] e
  have mi: "mission_row (asc ''Mode:'') (JObj []) (asc ''mode'') = labelRow (asc ''Mode:'') (JStr [])"
    by simp
  from renderable_record_renders [where gh = "JObj []" and key = "asc ''followers''"
      and label = "asc ''Followers:''", THEN conjunct2, THEN conjunct1] e
  have st: "stat_field_row (asc ''Followers:'') (JObj []) (asc ''followers'')
       = statRow (asc ''Followers:'') (jint 0)"
    by simp
  from renderable_record_renders [where p = "lookup bare_profile (asc ''profile'')"
      and key = "asc ''name''" and label = "asc ''Name:''", THEN conjunct2, THEN conjunct2,
      THEN conjunct2, THEN conjunct2, THEN conjunct1] p
  have un: "field_row (asc ''Name:'') (lookup bare_profile (asc ''profile'')) (asc ''name'')
       = Inr (padded_row 9474 (asc ''  Name:             undefined''))"
    by (simp add: l)
  have te: "tech_row (asc ''Tools:'') (JObj []) (asc ''tools'') = Inl TypeError"
    by (rule renderable_record_renders [where ts = "JObj []" and key = "asc ''tools''"
          and label = "asc ''Tools:''", THEN conjunct2, THEN conjunct2, THEN conjunct2,
          THEN conjunct2, THEN conjunct2, THEN conjunct2, THEN conjunct2, THEN conjunct2,
          THEN conjunct2, THEN conjunct2, THEN conjunct2, THEN conjunct2, THEN mp])
      (rule e(3))
  from r doc n nodoc so mi st un te show ?thesis
    by (intro conjI)
qed

section \<open>The rows of a document, and the clock\<close>





lemma bare_profile_renderable: "renderable bare_profile"
  by (simp add: renderable_def profile_ok_def tech_ok_def stats_ok_def mission_ok_def
      projects_ok_def goals_ok_def social_ok_def present_def fields_printable_def
      printable_list_def lookup_def bare_profile_def get_opt_def asc_def)





lemma stats_date_only:
  "iso_date a = iso_date b \<Longrightarrow>
     generateStatsSection a gh lc p = generateStatsSection b gh lc p"
  by (simp add: generateStatsSection_def)

lemma footer_injective:
  assumes "generateFooter a = generateFooter b" "length a = length b"
  shows "a = b"
proof -
  from assms(1) have "doubleRow (asc ''  Last Updated: '' @ a)
      = doubleRow (asc ''  Last Updated: '' @ b)"
    using assms(2)
    by (simp add: generateFooter_def section_text_def doubleRow_def padEnd_def)
  with assms(2) show ?thesis
    by (simp add: doubleRow_def padEnd_def)
qed

text \<open>
  C8. The renderer reads the clock twice and uses the date part of the first reading and
  the whole second reading. Two runs on the same record whose clocks agree on these two
  give the same result, the same document or the same error, whatever else the clocks
  return and however many readings were taken before; in particular two runs under a clock
  frozen at one instant do. The second reading matters: when it differs between two runs
  that both produce a document (the date part of the first reading and the length of the
  second being the same), the two documents differ.
\<close>

theorem render_deterministic:
  "(iso_date (clk t) = iso_date (clk' t') \<and> clk (t + 1) = clk' (t' + 1) \<longrightarrow>
      render_profile clk t pd = render_profile clk' t' pd)
   \<and> (render_profile clk t pd = Inr doc \<and> render_profile clk' t' pd = Inr doc'
      \<and> iso_date (clk t) = iso_date (clk' t')
      \<and> length (clk (t + 1)) = length (clk' (t' + 1))
      \<and> clk (t + 1) \<noteq> clk' (t' + 1) \<longrightarrow> doc \<noteq> doc')"
proof -
  have same: "render_profile clk t pd = render_profile clk' t' pd"
    if "iso_date (clk t) = iso_date (clk' t')" "clk (t + 1) = clk' (t' + 1)"
    using that stats_date_only [OF that(1)]
    by (simp add: render_profile_def generateREADME_def)
  have differ: "doc \<noteq> doc'"
    if r: "render_profile clk t pd = Inr doc" "render_profile clk' t' pd = Inr doc'"
      and i: "iso_date (clk t) = iso_date (clk' t')"
      and l: "length (clk (t + 1)) = length (clk' (t' + 1))"
      and n: "clk (t + 1) \<noteq> clk' (t' + 1)"
  proof
    assume e: "doc = doc'"
    from r(1) obtain profile_s tech_s stats_s mission_s projects_s goals_s social_s where
      s: "generateProfileSection (lookup pd (asc ''profile'')) = Inr profile_s"
        "generateTechSection (lookup pd (asc ''tech_stack'')) = Inr tech_s"
        "generateStatsSection (clk t) (lookup pd (asc ''github_stats''))
           (lookup pd (asc ''leetcode_stats'')) (lookup pd (asc ''profile'')) = Inr stats_s"
        "generateMissionSection (lookup pd (asc ''current_mission'')) = Inr mission_s"
        "generateProjectsSection (lookup pd (asc ''current_projects'')) = Inr projects_s"
        "generateGoalsSection (lookup pd (asc ''goals'')) = Inr goals_s"
        "generateSocialSection (lookup pd (asc ''social'')) = Inr social_s"
      and d: "doc = [96, 96, 96] @ asc ''yml'' @ [10] @ generateMatrixHeader @ profile_s
         @ tech_s @ stats_s @ mission_s @ projects_s @ goals_s @ social_s
         @ generateFooter (clk (t + 1)) @ [10] @ [96, 96, 96]"
      by (rule render_sections)
    from r(2) obtain profile_s' tech_s' stats_s' mission_s' projects_s' goals_s' social_s'
      where
      s': "generateProfileSection (lookup pd (asc ''profile'')) = Inr profile_s'"
        "generateTechSection (lookup pd (asc ''tech_stack'')) = Inr tech_s'"
        "generateStatsSection (clk' t') (lookup pd (asc ''github_stats''))
           (lookup pd (asc ''leetcode_stats'')) (lookup pd (asc ''profile'')) = Inr stats_s'"
        "generateMissionSection (lookup pd (asc ''current_mission'')) = Inr mission_s'"
        "generateProjectsSection (lookup pd (asc ''current_projects'')) = Inr projects_s'"
        "generateGoalsSection (lookup pd (asc ''goals'')) = Inr goals_s'"
        "generateSocialSection (lookup pd (asc ''social'')) = Inr social_s'"
      and d': "doc' = [96, 96, 96] @ asc ''yml'' @ [10] @ generateMatrixHeader @ profile_s'
         @ tech_s' @ stats_s' @ mission_s' @ projects_s' @ goals_s' @ social_s'
         @ generateFooter (clk' (t' + 1)) @ [10] @ [96, 96, 96]"
      by (rule render_sections)
    from s s' stats_date_only [OF i] have "profile_s' = profile_s" "tech_s' = tech_s"
      "stats_s' = stats_s" "mission_s' = mission_s" "projects_s' = projects_s"
      "goals_s' = goals_s" "social_s' = social_s"
      by simp_all
    with e d d' have "generateFooter (clk (t + 1)) = generateFooter (clk' (t' + 1))"
      by simp
    from footer_injective [OF this l] n show False
      by simp
  qed
  from same differ show ?thesis
    by blast
qed

text \<open>
  The same document under a clock frozen in the morning and under one that returns the
  evening of the same day at its first reading; different documents under clocks frozen in
  the morning and in the evening.
\<close>

theorem render_deterministic_witness:
  "iso_date (frozen_clock morning 0) = iso_date (drifting_clock 0)
   \<and> frozen_clock morning (0 + 1) = drifting_clock (0 + 1)
   \<and> frozen_clock morning 0 \<noteq> drifting_clock 0
   \<and> (\<exists>doc. render_profile (frozen_clock morning) 0 bare_profile = Inr doc
         \<and> render_profile drifting_clock 0 bare_profile = Inr doc)
   \<and> (\<exists>doc doc'. render_profile (frozen_clock morning) 0 bare_profile = Inr doc
         \<and> render_profile (frozen_clock evening) 0 bare_profile = Inr doc'
         \<and> doc \<noteq> doc')"
proof -
  have i: "iso_date (frozen_clock morning 0) = iso_date (drifting_clock 0)"
    "iso_date (frozen_clock morning 0) = iso_date (frozen_clock evening 0)"
    by (simp_all add: iso_date_def frozen_clock_def drifting_clock_def morning_def evening_def
        asc_def)
  have c: "frozen_clock morning (0 + 1) = drifting_clock (0 + 1)"
    "frozen_clock morning 0 \<noteq> drifting_clock 0"
    "length (frozen_clock morning (0 + 1)) = length (frozen_clock evening (0 + 1))"
    "frozen_clock morning (0 + 1) \<noteq> frozen_clock evening (0 + 1)"
    by (simp_all add: frozen_clock_def drifting_clock_def morning_def evening_def asc_def)
  obtain doc where d: "render_profile (frozen_clock morning) 0 bare_profile = Inr doc"
    using renderable_renders [OF bare_profile_renderable] by blast
  obtain doc' where d': "render_profile (frozen_clock evening) 0 bare_profile = Inr doc'"
    using renderable_renders [OF bare_profile_renderable] by blast
  from render_deterministic [where clk = "frozen_clock morning" and t = 0
      and clk' = drifting_clock and t' = 0 and pd = bare_profile, THEN conjunct1] i(1) c(1) d
  have same: "render_profile drifting_clock 0 bare_profile = Inr doc"
    by simp
  from render_deterministic [where clk = "frozen_clock morning" and t = 0
      and clk' = "frozen_clock evening" and t' = 0 and pd = bare_profile and doc = doc
      and doc' = doc', THEN conjunct2] i(2) c(3,4) d d'
  have "doc \<noteq> doc'"
    by blast
  with i(1) c(1,2) d d' same show ?thesis
    by blast
qed


end
